theory Spec2Isabelle
  imports Main "HOL-Library.Word" "HOL-Library.Sublist"
begin

section \<open>The remote server of SampSharp\<close>

text \<open>
  A shallow embedding of \<^verbatim>\<open>src/SampSharp/remote_server.cpp\<close>: the bridge between the
  game server (host) and the detached game mode client. Every member function of the source file is a
  function on a record of the instance's fields. The collaborators whose code is not
  part of the file (the transport \<^verbatim>\<open>communication_\<close>, the native and callback registries,
  the intermission indicator, the log, the clock, the mutex and the heap) are modelled at
  their boundary: every call with an effect is appended to the \<open>trace\<close> of the instance,
  in program order, and every result a collaborator returns is read from an oracle in
  the environment \<open>env\<close>, as a function of the trace so far. The theorems hold for every
  environment. A collaborator does not call back into the instance while it is called.

  A member \<^verbatim>\<open>x_\<close> of the class is the field \<open>x_m\<close> of the record (a name cannot end
  with an underscore here).
\<close>

subsection \<open>Constants (lines 25-46)\<close>

type_synonym u8 = "8 word"
type_synonym bytes = "u8 list"
type_synonym cell = "32 word"

definition DEBUG_PAUSE_TIMEOUT :: int where
  "DEBUG_PAUSE_TIMEOUT = 5"

definition DEBUG_PAUSE_TICK_INTERVAL :: int where
  "DEBUG_PAUSE_TICK_INTERVAL = 7"

definition DEBUG_PAUSE_TICK_MIN_SKIP :: int where
  "DEBUG_PAUSE_TICK_MIN_SKIP = 50"

text \<open>Commands received from the client.\<close>

definition CMD_PING :: u8 where "CMD_PING = 0x01"
definition CMD_PRINT :: u8 where "CMD_PRINT = 0x02"
definition CMD_RESPONSE :: u8 where "CMD_RESPONSE = 0x03"
definition CMD_RECONNECT :: u8 where "CMD_RECONNECT = 0x04"
definition CMD_REGISTER_CALL :: u8 where "CMD_REGISTER_CALL = 0x05"
definition CMD_FIND_NATIVE :: u8 where "CMD_FIND_NATIVE = 0x06"
definition CMD_INVOKE_NATIVE :: u8 where "CMD_INVOKE_NATIVE = 0x07"
definition CMD_START :: u8 where "CMD_START = 0x08"
definition CMD_DISCONNECT :: u8 where "CMD_DISCONNECT = 0x09"
definition CMD_ALIVE :: u8 where "CMD_ALIVE = 0x10"

text \<open>Commands sent to the client.\<close>

definition CMD_TICK :: u8 where "CMD_TICK = 0x11"
definition CMD_PONG :: u8 where "CMD_PONG = 0x12"
definition CMD_PUBLIC_CALL :: u8 where "CMD_PUBLIC_CALL = 0x13"
definition CMD_REPLY :: u8 where "CMD_REPLY = 0x14"
definition CMD_ANNOUNCE :: u8 where "CMD_ANNOUNCE = 0x15"

subsection \<open>Data\<close>

text \<open>
  Modelled from the spec: the enumerations \<^verbatim>\<open>cmd_status\<close> and \<^verbatim>\<open>status\<close> are declared in
  \<^verbatim>\<open>remote_server.h\<close>, which is not among the sources. The source file uses the four
  results below, and the six flags as independent bits of a mask: a mask is the set of
  its flags, \<^verbatim>\<open>a | b\<close> is the union, and the three status macros of lines 49-51 are
  \<open>STATUS_SET\<close>, \<open>STATUS_UNSET\<close> and \<open>STATUS_ISSET\<close>.
\<close>

datatype cmd_status = handled | unhandled | no_cmd | conn_dead

datatype status_flag =
    status_client_connected
  | status_client_started
  | status_client_received_init
  | status_client_reconnecting
  | status_client_disconnecting
  | status_server_received_init

text \<open>
  The calls the instance makes on its collaborators. A log entry holds the format string
  of the call; \<open>log_print\<close> holds the text printed. \<open>New\<close> and \<open>Delete\<close> are
  \<^verbatim>\<open>new uint8_t[n]\<close> (with the bytes copied into the buffer) and \<^verbatim>\<open>delete[]\<close>.
\<close>

datatype event =
    Send u8 bytes
  | CommSetup
  | CommConnect
  | CommDisconnect
  | CommReceive
  | LogPrint bytes
  | LogDebug string
  | LogInfo string
  | LogError string
  | SignalStarting
  | SignalDisconnect
  | SignalError
  | SetOn bool
  | RegisterBuffer bytes
  | CallbacksClear
  | GetHandle bytes
  | Invoke bytes nat
  | NativesClear
  | SendRconCommand string
  | MutexLock
  | MutexUnlock
  | New bytes
  | Delete bytes

text \<open>
  The environment: the constants of headers that are not among the sources
  (\<^verbatim>\<open>LEN_NETBUF\<close>, the two version numbers) and the results of the collaborators.
  \<open>comm_receive\<close> gives the status, the opcode and the payload of one poll;
  \<open>natives_invoke\<close> gives the bytes the native wrote to the output buffer (their number
  is the \<^verbatim>\<open>txlen\<close> it reports); \<open>callbacks_fill_call_buffer\<close> gives the serialized call,
  or \<open>None\<close> when it returns false.
\<close>

record env =
  LEN_NETBUF :: nat
  PLUGIN_PROTOCOL_VERSION :: "32 word"
  PLUGIN_VERSION :: "32 word"
  comm_is_connected :: "event list \<Rightarrow> bool"
  comm_is_ready :: "event list \<Rightarrow> bool"
  comm_setup :: "event list \<Rightarrow> bool"
  comm_connect :: "event list \<Rightarrow> bool"
  comm_receive :: "event list \<Rightarrow> cmd_status \<times> u8 \<times> bytes"
  time_NULL :: "event list \<Rightarrow> int"
  natives_get_handle :: "event list \<Rightarrow> bytes \<Rightarrow> 32 word"
  natives_invoke :: "event list \<Rightarrow> bytes \<Rightarrow> nat \<Rightarrow> nat \<Rightarrow> bytes"
  callbacks_fill_call_buffer :: "event list \<Rightarrow> nat \<Rightarrow> string \<Rightarrow> cell list \<Rightarrow> nat \<Rightarrow> bytes option"
  get_cwd :: "event list \<Rightarrow> bytes"

text \<open>
  The instance. \<open>sol_m\<close> and \<open>tick_m\<close> are \<^verbatim>\<open>time_t\<close> values and \<open>ticks_skipped_m\<close> is a
  counter; they are integers here (the claims concern differences of a few seconds and
  counts of a few dozen). \<open>buf_m\<close> is the receive buffer \<^verbatim>\<open>buf_\<close>.
\<close>

record remote_server =
  status_m :: "status_flag set"
  debug_check_m :: bool
  sol_m :: int
  tick_m :: int
  is_debug_m :: bool
  ticks_skipped_m :: int
  buf_m :: bytes
  trace :: "event list"

subsection \<open>Helpers\<close>

definition emit :: "event \<Rightarrow> remote_server \<Rightarrow> remote_server" where
  "emit e s = s\<lparr>trace := trace s @ [e]\<rparr>"

definition STATUS_SET :: "status_flag set \<Rightarrow> remote_server \<Rightarrow> remote_server" where
  "STATUS_SET v s = s\<lparr>status_m := status_m s \<union> v\<rparr>"

definition STATUS_UNSET :: "status_flag set \<Rightarrow> remote_server \<Rightarrow> remote_server" where
  "STATUS_UNSET v s = s\<lparr>status_m := status_m s - v\<rparr>"

definition STATUS_ISSET :: "status_flag set \<Rightarrow> remote_server \<Rightarrow> bool" where
  "STATUS_ISSET v s = (v \<subseteq> status_m s)"

definition log_print :: "bytes \<Rightarrow> remote_server \<Rightarrow> remote_server" where
  "log_print txt s = emit (LogPrint txt) s"

definition log_debug :: "string \<Rightarrow> remote_server \<Rightarrow> remote_server" where
  "log_debug fmt s = emit (LogDebug fmt) s"

definition log_info :: "string \<Rightarrow> remote_server \<Rightarrow> remote_server" where
  "log_info fmt s = emit (LogInfo fmt) s"

definition log_error :: "string \<Rightarrow> remote_server \<Rightarrow> remote_server" where
  "log_error fmt s = emit (LogError fmt) s"

text \<open>\<^verbatim>\<open>communication_->send(cmd, len, buf)\<close>: the opcode and the first \<open>len\<close> bytes.\<close>

definition communication_send :: "u8 \<Rightarrow> nat \<Rightarrow> bytes \<Rightarrow> remote_server \<Rightarrow> remote_server" where
  "communication_send cmd len buf s = emit (Send cmd (take len buf)) s"

text \<open>A C string: the bytes before the first zero byte.\<close>

definition cstring :: "bytes \<Rightarrow> bytes" where
  "cstring bs = takeWhile (\<lambda>b. b \<noteq> 0) bs"

text \<open>
  A read of the receive buffer. The buffer of the source has \<^verbatim>\<open>LEN_NETBUF\<close> bytes; a
  byte the model never wrote reads as 0.
\<close>

definition byte_at :: "bytes \<Rightarrow> nat \<Rightarrow> u8" where
  "byte_at bs i = (if i < length bs then bs ! i else 0)"

text \<open>A 32-bit value in memory, on the little-endian hosts the plugin is built for.\<close>

definition le32 :: "32 word \<Rightarrow> bytes" where
  "le32 w = [ucast w, ucast (drop_bit 8 w), ucast (drop_bit 16 w), ucast (drop_bit 24 w)]"

definition rd32 :: "bytes \<Rightarrow> 32 word" where
  "rd32 bs = (case bs of
      [a, b, c, d] \<Rightarrow>
        ucast a + push_bit 8 (ucast b) + push_bit 16 (ucast c) + push_bit 24 (ucast d)
    | _ \<Rightarrow> 0)"

text \<open>
  A read of a heap buffer of exactly \<open>length bs\<close> bytes: outside it the read is a fault.
\<close>

datatype fault = out_of_bounds

definition load_u8 :: "bytes \<Rightarrow> nat \<Rightarrow> fault + u8" where
  "load_u8 bs off = (if off < length bs then Inr (bs ! off) else Inl out_of_bounds)"

definition load_u32 :: "bytes \<Rightarrow> nat \<Rightarrow> fault + 32 word" where
  "load_u32 bs off =
     (if off + 4 \<le> length bs then Inr (rd32 (take 4 (drop off bs))) else Inl out_of_bounds)"

text \<open>A write of \<open>data\<close> at the start of the receive buffer.\<close>

definition write_buf :: "bytes \<Rightarrow> remote_server \<Rightarrow> remote_server" where
  "write_buf data s = s\<lparr>buf_m := data @ drop (length data) (buf_m s)\<rparr>"

subsection \<open>Commands (lines 77-131)\<close>

definition cmd_ping :: "env \<Rightarrow> bytes \<Rightarrow> nat \<Rightarrow> remote_server \<Rightarrow> remote_server" where
  "cmd_ping env buf buflen s = communication_send CMD_PONG 0 [] s"

definition cmd_print :: "env \<Rightarrow> bytes \<Rightarrow> nat \<Rightarrow> remote_server \<Rightarrow> remote_server" where
  "cmd_print env buf buflen s = log_print (cstring buf) s"

definition cmd_alive :: "env \<Rightarrow> bytes \<Rightarrow> nat \<Rightarrow> remote_server \<Rightarrow> remote_server" where
  "cmd_alive env buf buflen s = s"

definition cmd_register_call :: "env \<Rightarrow> bytes \<Rightarrow> nat \<Rightarrow> remote_server \<Rightarrow> remote_server" where
  "cmd_register_call env buf buflen s =
     emit (RegisterBuffer buf) (log_debug ''Register call %s'' s)"

text \<open>
  The caller id is copied as the two bytes it occupies; the handle follows as an
  \<^verbatim>\<open>int32_t\<close>. The reply is sent with \<open>CMD_RESPONSE\<close>, as line 101 has it.
\<close>

definition cmd_find_native :: "env \<Rightarrow> bytes \<Rightarrow> nat \<Rightarrow> remote_server \<Rightarrow> remote_server" where
  "cmd_find_native env buf buflen s =
     (let callerid = [byte_at buf 0, byte_at buf 1];
          s1 = log_debug ''Find native w/%d data'' s;
          name = cstring (drop 2 buf);
          h = natives_get_handle env (trace s1) name;
          s2 = emit (GetHandle name) s1;
          buftx = callerid @ le32 h
      in communication_send CMD_RESPONSE (4 + 2) buftx s2)"

text \<open>
  \<^verbatim>\<open>buflen -= sizeof(uint16_t)\<close> is a subtraction of \<^verbatim>\<open>uint32_t\<close>: it wraps around when the
  command has fewer than two bytes.
\<close>

definition u32_sub :: "nat \<Rightarrow> nat \<Rightarrow> nat" where
  "u32_sub a b = (a + 2 ^ 32 - b) mod 2 ^ 32"

definition cmd_invoke_native :: "env \<Rightarrow> bytes \<Rightarrow> nat \<Rightarrow> remote_server \<Rightarrow> remote_server" where
  "cmd_invoke_native env buf buflen s =
     (let callerid = [byte_at buf 0, byte_at buf 1];
          buf1 = drop 2 buf;
          buflen1 = u32_sub buflen 2;
          txlen = u32_sub (LEN_NETBUF env) 2;
          out = natives_invoke env (trace s) buf1 buflen1 txlen;
          s1 = emit (Invoke buf1 buflen1) s;
          s2 = log_debug ''Native invoked with %d buflen, response has %d buflen'' s1;
          txlen1 = length out + 2
      in communication_send CMD_RESPONSE txlen1 (callerid @ out) s2)"

subsection \<open>Connection (lines 186-315)\<close>

definition store_time :: "env \<Rightarrow> remote_server \<Rightarrow> remote_server" where
  "store_time env s = s\<lparr>sol_m := time_NULL env (trace s)\<rparr>"

definition is_debugging :: "env \<Rightarrow> bool \<Rightarrow> remote_server \<Rightarrow> bool \<times> remote_server" where
  "is_debugging env is_tick s =
     (if \<not> debug_check_m s then (False, s)
      else
        let new_debug = (tick_m s - sol_m s \<ge> DEBUG_PAUSE_TIMEOUT);
            s1 = (if new_debug \<and> \<not> is_debug_m s then log_info ''Debugger pause detected.'' s
                  else if \<not> new_debug \<and> is_debug_m s then log_info ''Debugger resume detected.'' s
                  else s)
        in if is_tick \<and> new_debug \<and> is_debug_m s1
              \<and> time_NULL env (trace s1) - tick_m s1 \<ge> DEBUG_PAUSE_TICK_INTERVAL
              \<and> ticks_skipped_m s1 > DEBUG_PAUSE_TICK_MIN_SKIP
           then (False, (log_debug ''Keepalive tick.'' s1)\<lparr>ticks_skipped_m := 0\<rparr>)
           else
             let s2 = (if is_tick
                       then (if new_debug \<and> is_debug_m s1
                             then s1\<lparr>ticks_skipped_m := ticks_skipped_m s1 + 1\<rparr>
                             else if \<not> new_debug \<and> ticks_skipped_m s1 \<noteq> 0
                             then s1\<lparr>ticks_skipped_m := 0\<rparr>
                             else s1)
                       else s1)
             in (new_debug, s2\<lparr>is_debug_m := new_debug\<rparr>))"

definition is_client_connected :: "env \<Rightarrow> remote_server \<Rightarrow> bool" where
  "is_client_connected env s =
     (comm_is_connected env (trace s) \<and> STATUS_ISSET {status_client_connected} s)"

definition cmd_send_announce :: "env \<Rightarrow> remote_server \<Rightarrow> remote_server" where
  "cmd_send_announce env s =
     (let cwd = get_cwd env (trace s);
          buf = le32 (PLUGIN_PROTOCOL_VERSION env) @ le32 (PLUGIN_VERSION env) @ cwd;
          s1 = communication_send CMD_ANNOUNCE (4 * 2 + length cwd) buf s;
          s2 = log_info ''Server announcement sent.'' s1
      in log_info ''Hi from %s'' s2)"

definition connect :: "env \<Rightarrow> remote_server \<Rightarrow> bool \<times> remote_server" where
  "connect env s =
     (if comm_is_connected env (trace s) then (True, s)
      else if \<not> comm_is_ready env (trace s) \<and> \<not> comm_setup env (trace s)
      then (False, emit CommSetup s)
      else
        let s1 = (if \<not> comm_is_ready env (trace s) then emit CommSetup s else s)
        in if \<not> comm_connect env (trace s1) then (False, emit CommConnect s1)
           else
             let s2 = emit CommConnect s1;
                 s3 = emit (SetOn False) s2;
                 s4 = STATUS_SET {status_client_connected} s3;
                 s5 = (if STATUS_ISSET {status_client_reconnecting} s4
                       then log_info ''Client reconnected.'' s4
                       else log_info ''Connected to client.'' s4);
                 s6 = STATUS_UNSET {status_client_reconnecting} s5
             in (True, cmd_send_announce env s6))"

definition disconnect :: "env \<Rightarrow> string option \<Rightarrow> bool \<Rightarrow> remote_server \<Rightarrow> remote_server" where
  "disconnect env context expected s =
     (if \<not> is_client_connected env s then s
      else
        let s1 =
          (if expected
           then emit SignalDisconnect (log_info ''Client disconnected.'' s)
           else if STATUS_ISSET {status_client_disconnecting} s
           then
             emit CallbacksClear (emit NativesClear
               (STATUS_UNSET {status_client_started, status_client_disconnecting}
                 (emit SignalDisconnect (log_info ''Client disconnected.'' s))))
           else
             emit CallbacksClear (emit NativesClear
               (STATUS_UNSET {status_client_started}
                 (emit SignalError (log_error ''Unexpected disconnect of client. %s'' s)))));
          s2 = emit CommDisconnect s1;
          s3 = emit CommSetup s2
        in STATUS_UNSET {status_client_connected} s3)"

definition cmd_reconnect :: "env \<Rightarrow> bytes \<Rightarrow> nat \<Rightarrow> remote_server \<Rightarrow> remote_server" where
  "cmd_reconnect env buf buflen s =
     disconnect env None True
       (STATUS_SET {status_client_reconnecting} (log_info ''The gamemode is reconnecting.'' s))"

definition cmd_disconnect :: "env \<Rightarrow> bytes \<Rightarrow> nat \<Rightarrow> remote_server \<Rightarrow> remote_server" where
  "cmd_disconnect env buf buflen s =
     STATUS_SET {status_client_disconnecting} (log_info ''The gamemode is disconnecting.'' s)"



definition fill_call_buffer ::
  "env \<Rightarrow> nat \<Rightarrow> string \<Rightarrow> cell list \<Rightarrow> remote_server \<Rightarrow> nat option \<times> remote_server" where
  "fill_call_buffer env amx name params s =
     (case callbacks_fill_call_buffer env (trace s) amx name params (LEN_NETBUF env) of
        None \<Rightarrow> (None, s)
      | Some data \<Rightarrow> (Some (length data), write_buf data s))"

definition sampgdk_SendRconCommand :: "string \<Rightarrow> remote_server \<Rightarrow> remote_server" where
  "sampgdk_SendRconCommand c s = emit (SendRconCommand c) s"

subsection \<open>Receiving and dispatching (lines 133-179 and 318-386)\<close>

text \<open>
  \<open>cmd_receive_unhandled\<close> polls until a command is unhandled or the connection is
  dead, and \<open>cmd_start\<close> calls it while a command is being processed. Nothing bounds the
  number of polls, so the loop takes fuel: the number of iterations and nested calls it
  may use. \<open>None\<close> is the loop that has not returned within the fuel.

  The three functions between the loop and its nested call are written first with the
  loop as the parameter \<open>recv\<close> (the call \<^verbatim>\<open>cmd_receive_unhandled(&response, &len)\<close> of
  line 166); the loop closes the recursion, and \<open>cmd_start\<close>, \<open>cmd_process\<close> and
  \<open>cmd_receive_one\<close> are these functions with the loop in place.

  The out-parameters \<^verbatim>\<open>response\<close> and \<^verbatim>\<open>len\<close> are passed in and returned: \<open>None\<close> is
  the null pointer and \<open>Some r\<close> a pointer to a buffer holding \<open>r\<close>.
\<close>

type_synonym receive_result = "(bool \<times> bytes option \<times> nat \<times> remote_server) option"
type_synonym process_result = "(cmd_status \<times> bytes option \<times> nat \<times> remote_server) option"

text \<open>Lines 151-173: the fake gmx start method, once the host has received its init.\<close>

definition cmd_start_fake_gmx ::
  "(remote_server \<Rightarrow> receive_result) \<Rightarrow> env \<Rightarrow> remote_server \<Rightarrow> remote_server option" where
  "cmd_start_fake_gmx recv env s2 =
     (let s3 = STATUS_SET {status_client_received_init} s2
      in case fill_call_buffer env 0 ''OnGameModeInit'' [0] s3 of
           (None, s4) \<Rightarrow> Some s4
         | (Some len, s4) \<Rightarrow>
             (case recv (communication_send CMD_PUBLIC_CALL len (buf_m s4) s4) of
                None \<Rightarrow> None
              | Some (ok, None, len1, s5) \<Rightarrow>
                  Some (log_error ''Received no response to callback OnGameModeInit.'' s5)
              | Some (ok, Some r, len1, s5) \<Rightarrow>
                  if \<not> ok \<or> len1 = 0
                  then Some (log_error ''Received no response to callback OnGameModeInit.'' s5)
                  else Some (emit (Delete r) s5)))"

definition cmd_start_rec ::
  "(remote_server \<Rightarrow> receive_result) \<Rightarrow> env \<Rightarrow> bytes \<Rightarrow> nat \<Rightarrow> remote_server
     \<Rightarrow> remote_server option" where
  "cmd_start_rec recv env buf buflen s =
     (let s1 = STATUS_SET {status_client_started} (log_info ''The gamemode has started.'' s);
          type = (if buflen = 0 then 0 else byte_at buf 0)
      in if type = 0 then Some (log_debug ''Using 'none' start method'' s1)
         else if type = 1 then
           (let s2 = log_debug ''Using 'gmx' start method'' s1
            in if STATUS_ISSET {status_server_received_init} s2
               then Some (sampgdk_SendRconCommand ''gmx''
                            (log_debug ''Sending gmx to attach game mode.'' s2))
               else Some s2)
         else if type = 2 then
           (let s2 = log_debug ''Using 'fake gmx' start method'' s1
            in if STATUS_ISSET {status_server_received_init} s2
               then cmd_start_fake_gmx recv env s2
               else Some s2)
         else Some (log_error ''Invalid game mode start mode'' s1))"

definition cmd_process_rec ::
  "(remote_server \<Rightarrow> receive_result) \<Rightarrow> env \<Rightarrow> u8 \<Rightarrow> bytes \<Rightarrow> nat \<Rightarrow> bytes option \<Rightarrow> nat
     \<Rightarrow> remote_server \<Rightarrow> process_result" where
  "cmd_process_rec recv env cmd buf buflen resp resplen s =
     (if cmd = CMD_PING then Some (handled, resp, resplen, cmd_ping env buf buflen s)
      else if cmd = CMD_PRINT then Some (handled, resp, resplen, cmd_print env buf buflen s)
      else if cmd = CMD_REGISTER_CALL
        then Some (handled, resp, resplen, cmd_register_call env buf buflen s)
      else if cmd = CMD_FIND_NATIVE
        then Some (handled, resp, resplen, cmd_find_native env buf buflen s)
      else if cmd = CMD_INVOKE_NATIVE
        then Some (handled, resp, resplen, cmd_invoke_native env buf buflen s)
      else if cmd = CMD_RECONNECT
        then Some (handled, resp, resplen, cmd_reconnect env buf buflen s)
      else if cmd = CMD_DISCONNECT
        then Some (handled, resp, resplen, cmd_disconnect env buf buflen s)
      else if cmd = CMD_START
        then (case cmd_start_rec recv env buf buflen s of
                None \<Rightarrow> None
              | Some s1 \<Rightarrow> Some (handled, resp, resplen, s1))
      else if cmd = CMD_ALIVE then Some (handled, resp, resplen, cmd_alive env buf buflen s)
      else if buflen > 0
        then Some (unhandled, Some (take buflen buf), buflen, emit (New (take buflen buf)) s)
      else Some (unhandled, resp, resplen, s))"

definition cmd_receive_one_rec ::
  "(remote_server \<Rightarrow> receive_result) \<Rightarrow> env \<Rightarrow> bytes option \<Rightarrow> nat \<Rightarrow> remote_server
     \<Rightarrow> process_result" where
  "cmd_receive_one_rec recv env response len s =
     (case connect env s of
        (False, s1) \<Rightarrow> Some (conn_dead, response, len, s1)
      | (True, s1) \<Rightarrow>
          (case comm_receive env (trace s1) of
             (stat, command, payload) \<Rightarrow>
               let s2 = write_buf payload (emit CommReceive s1);
                   command_len = length payload
               in if stat = conn_dead \<or> stat = no_cmd then Some (stat, response, len, s2)
                  else cmd_process_rec recv env command (buf_m s2) command_len response len
                         (store_time env s2)))"

primrec cmd_receive_unhandled :: "nat \<Rightarrow> env \<Rightarrow> remote_server \<Rightarrow> receive_result" where
  "cmd_receive_unhandled 0 env s = None"
| "cmd_receive_unhandled (Suc n) env s =
     (case cmd_receive_one_rec (cmd_receive_unhandled n env) env None 0 s of
        None \<Rightarrow> None
      | Some (stat, response, len, s1) \<Rightarrow>
          if stat = handled \<or> stat = no_cmd then cmd_receive_unhandled n env s1
          else Some (stat = unhandled, response, len, s1))"

definition cmd_start :: "nat \<Rightarrow> env \<Rightarrow> bytes \<Rightarrow> nat \<Rightarrow> remote_server \<Rightarrow> remote_server option" where
  "cmd_start n env buf buflen s = cmd_start_rec (cmd_receive_unhandled n env) env buf buflen s"

definition cmd_process ::
  "nat \<Rightarrow> env \<Rightarrow> u8 \<Rightarrow> bytes \<Rightarrow> nat \<Rightarrow> bytes option \<Rightarrow> nat \<Rightarrow> remote_server \<Rightarrow> process_result" where
  "cmd_process n env cmd buf buflen resp resplen s =
     cmd_process_rec (cmd_receive_unhandled n env) env cmd buf buflen resp resplen s"

definition cmd_receive_one ::
  "nat \<Rightarrow> env \<Rightarrow> bytes option \<Rightarrow> nat \<Rightarrow> remote_server \<Rightarrow> process_result" where
  "cmd_receive_one n env response len s =
     cmd_receive_one_rec (cmd_receive_unhandled n env) env response len s"

subsection \<open>Entry points of the host (lines 390-489)\<close>

text \<open>
  Lines 440-455 of \<open>public_call\<close>: what it does with the result of
  \<open>cmd_receive_unhandled\<close>. \<open>retval\<close> is the slot the caller passed: \<open>None\<close> is the null
  pointer, \<open>Some v\<close> a slot holding \<open>v\<close>. The reply is a heap buffer, so a read outside
  it is a fault.
\<close>

definition public_call_reply ::
  "string \<Rightarrow> cell option \<Rightarrow> bool \<Rightarrow> bytes option \<Rightarrow> nat \<Rightarrow> remote_server
     \<Rightarrow> fault + (cell option \<times> remote_server)" where
  "public_call_reply name retval ok response len s =
     (case response of
        None \<Rightarrow>
          Inr (retval, emit MutexUnlock (log_error ''Received no response to callback %s.'' s))
      | Some r \<Rightarrow>
          if \<not> ok \<or> len = 0
          then Inr (retval,
                 emit MutexUnlock (log_error ''Received no response to callback %s.'' s))
          else
            let s1 = emit MutexUnlock s
            in if len \<ge> 5
               then (case load_u8 r 0 of
                       Inl f \<Rightarrow> Inl f
                     | Inr b0 \<Rightarrow>
                         if b0 \<noteq> 0 \<and> retval \<noteq> None
                         then (case load_u32 r 1 of
                                 Inl f \<Rightarrow> Inl f
                               | Inr v \<Rightarrow> Inr (Some v, emit (Delete r) s1))
                         else Inr (retval, emit (Delete r) s1))
               else Inr (retval, emit (Delete r) s1))"

text \<open>
  Lines 396-437 of \<open>public_call\<close>: the checks and the command. The result is false with
  the state at the \<^verbatim>\<open>return\<close> when the call is not forwarded, and true with the state
  after the command is sent (the lock taken) when it is.
\<close>

definition public_call_send ::
  "env \<Rightarrow> nat \<Rightarrow> string \<Rightarrow> cell list \<Rightarrow> remote_server \<Rightarrow> bool \<times> remote_server" where
  "public_call_send env amx name params s =
     (let is_gmi = (name = ''OnGameModeInit'');
          is_gme = (\<not> is_gmi \<and> name = ''OnGameModeExit'');
          s1 = (if is_gmi then STATUS_SET {status_server_received_init} s
                else if is_gme then STATUS_UNSET {status_server_received_init} s
                else s)
      in if \<not> is_client_connected env s1
            \<or> \<not> STATUS_ISSET {status_client_started} s1
            \<or> STATUS_ISSET {status_client_reconnecting} s1
            \<or> STATUS_ISSET {status_client_disconnecting} s1
         then (False, s1)
         else
           let s2 = emit (SetOn False) s1
           in if \<not> is_gmi \<and> \<not> STATUS_ISSET {status_client_received_init} s2
              then (False, s2)
              else
                let s3 = (if is_gmi then STATUS_SET {status_client_received_init} s2 else s2)
                in (case is_debugging env False s3 of
                      (True, s4) \<Rightarrow> (False, s4)
                    | (False, s4) \<Rightarrow>
                        (case fill_call_buffer env amx name params s4 of
                           (None, s5) \<Rightarrow> (False, s5)
                         | (Some len, s5) \<Rightarrow>
                             (let s6 = emit MutexLock s5
                              in (True, communication_send CMD_PUBLIC_CALL len (buf_m s6)
                                          s6)))))"

definition public_call ::
  "nat \<Rightarrow> env \<Rightarrow> nat \<Rightarrow> string \<Rightarrow> cell list \<Rightarrow> cell option \<Rightarrow> remote_server
     \<Rightarrow> (fault + (cell option \<times> remote_server)) option" where
  "public_call n env amx name params retval s =
     (case public_call_send env amx name params s of
        (False, s1) \<Rightarrow> Some (Inr (retval, s1))
      | (True, s7) \<Rightarrow>
          (case cmd_receive_unhandled n env s7 of
             None \<Rightarrow> None
           | Some (ok, response, len1, s8) \<Rightarrow>
               Some (public_call_reply name retval ok response len1 s8)))"

text \<open>
  The loop of \<open>tick\<close> (lines 479-486). \<^verbatim>\<open>response\<close> is declared before the loop and
  nothing resets it between two iterations, so it is passed from one to the next.
\<close>

fun tick_receive ::
  "nat \<Rightarrow> env \<Rightarrow> bytes option \<Rightarrow> nat \<Rightarrow> remote_server \<Rightarrow> remote_server option" where
  "tick_receive 0 env response len s = None"
| "tick_receive (Suc n) env response len s =
     (case cmd_receive_one n env response len s of
        None \<Rightarrow> None
      | Some (stat, response1, len1, s1) \<Rightarrow>
          let s2 = (case response1 of
                      None \<Rightarrow> s1
                    | Some r \<Rightarrow> emit (Delete r) (log_error ''Unhandled response in tick.'' s1))
          in if stat \<noteq> no_cmd \<and> stat \<noteq> conn_dead then tick_receive n env response1 len1 s2
             else Some s2)"

text \<open>Lines 461-472 of \<open>tick\<close>: the tick command, unless a paused debugger is detected.\<close>

definition tick_send :: "env \<Rightarrow> remote_server \<Rightarrow> remote_server" where
  "tick_send env s1 =
     (if is_client_connected env s1
         \<and> STATUS_ISSET {status_client_started, status_client_received_init} s1
         \<and> \<not> STATUS_ISSET {status_client_reconnecting} s1
         \<and> \<not> STATUS_ISSET {status_client_disconnecting} s1
      then
        (case is_debugging env True (emit (SetOn False) s1) of
           (True, s3) \<Rightarrow> s3
         | (False, s3) \<Rightarrow>
             communication_send CMD_TICK 0 [] (s3\<lparr>tick_m := time_NULL env (trace s3)\<rparr>))
      else s1)"

text \<open>\<^verbatim>\<open>len\<close> is not initialised in the source and never read; it starts as 0 here.\<close>

definition tick :: "nat \<Rightarrow> env \<Rightarrow> remote_server \<Rightarrow> remote_server option" where
  "tick n env s =
     (case tick_receive n env None 0 (tick_send env (emit MutexLock s)) of
        None \<Rightarrow> None
      | Some s3 \<Rightarrow> Some (emit MutexUnlock s3))"

subsection \<open>Observations of a trace\<close>

text \<open>The commands sent, the buffers allocated and the buffers released, in order.\<close>

fun sent :: "event list \<Rightarrow> (u8 \<times> bytes) list" where
  "sent [] = []"
| "sent (Send c p # es) = (c, p) # sent es"
| "sent (e # es) = sent es"

fun allocated :: "event list \<Rightarrow> bytes list" where
  "allocated [] = []"
| "allocated (New r # es) = r # allocated es"
| "allocated (e # es) = allocated es"

fun released :: "event list \<Rightarrow> bytes list" where
  "released [] = []"
| "released (Delete r # es) = r # released es"
| "released (e # es) = released es"

text \<open>The number of tick commands sent, and the reply buffers allocated and not released.\<close>

definition ticks_sent :: "event list \<Rightarrow> nat" where
  "ticks_sent es = length (filter (\<lambda>c. fst c = CMD_TICK) (sent es))"

definition live :: "event list \<Rightarrow> int" where
  "live es = int (length (allocated es)) - int (length (released es))"

subsection \<open>Relations between the state before and after an operation\<close>

text \<open>
  What receiving and dispatching leaves alone: the members of the debugger heuristic but
  \<open>sol_m\<close>, the trace so far, and the number of ticks sent.
\<close>

definition receive_frame :: "remote_server \<Rightarrow> remote_server \<Rightarrow> bool" where
  "receive_frame s s1 \<longleftrightarrow>
     debug_check_m s1 = debug_check_m s \<and> tick_m s1 = tick_m s \<and> is_debug_m s1 = is_debug_m s
     \<and> ticks_skipped_m s1 = ticks_skipped_m s \<and> prefix (trace s) (trace s1)
     \<and> ticks_sent (trace s1) = ticks_sent (trace s)"



text \<open>
  The result of the receive loop is well formed when a reply buffer comes with success
  and with its own length, which is not 0, and is the one buffer allocated and not yet
  released since the loop started.
\<close>

definition reply_wf ::
  "remote_server \<Rightarrow> bool \<times> bytes option \<times> nat \<times> remote_server \<Rightarrow> bool" where
  "reply_wf s res =
     (case res of
        (ok, None, len, s1) \<Rightarrow> live (trace s1) = live (trace s)
      | (ok, Some r, len, s1) \<Rightarrow>
          ok \<and> len = length r \<and> r \<noteq> [] \<and> live (trace s1) = live (trace s) + 1)"

text \<open>
  The receive loop in the words of the specification: call \<open>cmd_receive_one\<close>, discard a
  handled command and an empty poll, stop at the first unhandled command or dead
  connection, and return true exactly for the former.
\<close>

inductive receive_until ::
  "env \<Rightarrow> remote_server \<Rightarrow> bool \<times> bytes option \<times> nat \<times> remote_server \<Rightarrow> bool"
  for env :: env where
  stop:
    "cmd_receive_one m env None 0 s = Some (stat, response, len, s1)
     \<Longrightarrow> stat = unhandled \<or> stat = conn_dead
     \<Longrightarrow> receive_until env s (stat = unhandled, response, len, s1)"
| skip:
    "cmd_receive_one m env None 0 s = Some (stat, response, len, s1)
     \<Longrightarrow> stat = handled \<or> stat = no_cmd
     \<Longrightarrow> receive_until env s1 res
     \<Longrightarrow> receive_until env s res"

subsection \<open>A scripted client\<close>

text \<open>
  An environment for the examples: the transport is connected and its polls return the
  entries of \<open>script\<close> one after the other, then nothing (\<open>no_cmd\<close>); the clock shows
  \<open>now\<close>; no native is found; a call serializes to the bytes of its name.
\<close>

definition script_env :: "(cmd_status \<times> u8 \<times> bytes) list \<Rightarrow> int \<Rightarrow> env" where
  "script_env script now =
     \<lparr> LEN_NETBUF = 4096,
       PLUGIN_PROTOCOL_VERSION = 1,
       PLUGIN_VERSION = 1,
       comm_is_connected = (\<lambda>h. True),
       comm_is_ready = (\<lambda>h. True),
       comm_setup = (\<lambda>h. True),
       comm_connect = (\<lambda>h. True),
       comm_receive = (\<lambda>h. let k = count_list h CommReceive
                             in if k < length script then script ! k else (no_cmd, 0, [])),
       time_NULL = (\<lambda>h. now),
       natives_get_handle = (\<lambda>h name. - 1),
       natives_invoke = (\<lambda>h buf buflen txlen. [1, 0, 0, 0]),
       callbacks_fill_call_buffer = (\<lambda>h amx name params cap. Some (map (of_nat \<circ> of_char) name)),
       get_cwd = (\<lambda>h. []) \<rparr>"

text \<open>An instance with the given flags, times and counter, and nothing in its trace.\<close>

definition server_with ::
  "status_flag set \<Rightarrow> int \<Rightarrow> int \<Rightarrow> bool \<Rightarrow> int \<Rightarrow> remote_server" where
  "server_with st sol tck dbg skipped =
     \<lparr> status_m = st, debug_check_m = True, sol_m = sol, tick_m = tck, is_debug_m = dbg,
       ticks_skipped_m = skipped, buf_m = [], trace = [] \<rparr>"

section \<open>Properties\<close>

lemmas cmd_defs =
  CMD_PING_def CMD_PRINT_def CMD_RESPONSE_def CMD_RECONNECT_def CMD_REGISTER_CALL_def
  CMD_FIND_NATIVE_def CMD_INVOKE_NATIVE_def CMD_START_def CMD_DISCONNECT_def CMD_ALIVE_def
  CMD_TICK_def CMD_PONG_def CMD_PUBLIC_CALL_def CMD_REPLY_def CMD_ANNOUNCE_def

lemmas prim_defs =
  emit_def STATUS_SET_def STATUS_UNSET_def STATUS_ISSET_def log_print_def log_debug_def
  log_info_def log_error_def communication_send_def write_buf_def store_time_def
  sampgdk_SendRconCommand_def

lemma le32_not_found: "le32 (- 1) = [0xFF, 0xFF, 0xFF, 0xFF]"
  by code_simp

subsection \<open>The members after a primitive step\<close>

lemma prim_sel:
  "status_m (emit e s) = status_m s"
  "debug_check_m (emit e s) = debug_check_m s"
  "sol_m (emit e s) = sol_m s"
  "tick_m (emit e s) = tick_m s"
  "is_debug_m (emit e s) = is_debug_m s"
  "ticks_skipped_m (emit e s) = ticks_skipped_m s"
  "buf_m (emit e s) = buf_m s"
  "trace (emit e s) = trace s @ [e]"
  "status_m (log_print txt s) = status_m s"
  "debug_check_m (log_print txt s) = debug_check_m s"
  "sol_m (log_print txt s) = sol_m s"
  "tick_m (log_print txt s) = tick_m s"
  "is_debug_m (log_print txt s) = is_debug_m s"
  "ticks_skipped_m (log_print txt s) = ticks_skipped_m s"
  "buf_m (log_print txt s) = buf_m s"
  "trace (log_print txt s) = trace s @ [LogPrint txt]"
  "status_m (log_debug fmt s) = status_m s"
  "debug_check_m (log_debug fmt s) = debug_check_m s"
  "sol_m (log_debug fmt s) = sol_m s"
  "tick_m (log_debug fmt s) = tick_m s"
  "is_debug_m (log_debug fmt s) = is_debug_m s"
  "ticks_skipped_m (log_debug fmt s) = ticks_skipped_m s"
  "buf_m (log_debug fmt s) = buf_m s"
  "trace (log_debug fmt s) = trace s @ [LogDebug fmt]"
  "status_m (log_info fmt s) = status_m s"
  "debug_check_m (log_info fmt s) = debug_check_m s"
  "sol_m (log_info fmt s) = sol_m s"
  "tick_m (log_info fmt s) = tick_m s"
  "is_debug_m (log_info fmt s) = is_debug_m s"
  "ticks_skipped_m (log_info fmt s) = ticks_skipped_m s"
  "buf_m (log_info fmt s) = buf_m s"
  "trace (log_info fmt s) = trace s @ [LogInfo fmt]"
  "status_m (log_error fmt s) = status_m s"
  "debug_check_m (log_error fmt s) = debug_check_m s"
  "sol_m (log_error fmt s) = sol_m s"
  "tick_m (log_error fmt s) = tick_m s"
  "is_debug_m (log_error fmt s) = is_debug_m s"
  "ticks_skipped_m (log_error fmt s) = ticks_skipped_m s"
  "buf_m (log_error fmt s) = buf_m s"
  "trace (log_error fmt s) = trace s @ [LogError fmt]"
  "status_m (communication_send cmd len buf s) = status_m s"
  "debug_check_m (communication_send cmd len buf s) = debug_check_m s"
  "sol_m (communication_send cmd len buf s) = sol_m s"
  "tick_m (communication_send cmd len buf s) = tick_m s"
  "is_debug_m (communication_send cmd len buf s) = is_debug_m s"
  "ticks_skipped_m (communication_send cmd len buf s) = ticks_skipped_m s"
  "buf_m (communication_send cmd len buf s) = buf_m s"
  "trace (communication_send cmd len buf s) = trace s @ [Send cmd (take len buf)]"
  "status_m (sampgdk_SendRconCommand c s) = status_m s"
  "debug_check_m (sampgdk_SendRconCommand c s) = debug_check_m s"
  "sol_m (sampgdk_SendRconCommand c s) = sol_m s"
  "tick_m (sampgdk_SendRconCommand c s) = tick_m s"
  "is_debug_m (sampgdk_SendRconCommand c s) = is_debug_m s"
  "ticks_skipped_m (sampgdk_SendRconCommand c s) = ticks_skipped_m s"
  "buf_m (sampgdk_SendRconCommand c s) = buf_m s"
  "trace (sampgdk_SendRconCommand c s) = trace s @ [SendRconCommand c]"
  "status_m (STATUS_SET v s) = status_m s \<union> v"
  "debug_check_m (STATUS_SET v s) = debug_check_m s"
  "sol_m (STATUS_SET v s) = sol_m s"
  "tick_m (STATUS_SET v s) = tick_m s"
  "is_debug_m (STATUS_SET v s) = is_debug_m s"
  "ticks_skipped_m (STATUS_SET v s) = ticks_skipped_m s"
  "buf_m (STATUS_SET v s) = buf_m s"
  "trace (STATUS_SET v s) = trace s"
  "status_m (STATUS_UNSET v s) = status_m s - v"
  "debug_check_m (STATUS_UNSET v s) = debug_check_m s"
  "sol_m (STATUS_UNSET v s) = sol_m s"
  "tick_m (STATUS_UNSET v s) = tick_m s"
  "is_debug_m (STATUS_UNSET v s) = is_debug_m s"
  "ticks_skipped_m (STATUS_UNSET v s) = ticks_skipped_m s"
  "buf_m (STATUS_UNSET v s) = buf_m s"
  "trace (STATUS_UNSET v s) = trace s"
  "status_m (write_buf data s) = status_m s"
  "debug_check_m (write_buf data s) = debug_check_m s"
  "sol_m (write_buf data s) = sol_m s"
  "tick_m (write_buf data s) = tick_m s"
  "is_debug_m (write_buf data s) = is_debug_m s"
  "ticks_skipped_m (write_buf data s) = ticks_skipped_m s"
  "buf_m (write_buf data s) = data @ drop (length data) (buf_m s)"
  "trace (write_buf data s) = trace s"
  "status_m (store_time env s) = status_m s"
  "debug_check_m (store_time env s) = debug_check_m s"
  "sol_m (store_time env s) = time_NULL env (trace s)"
  "tick_m (store_time env s) = tick_m s"
  "is_debug_m (store_time env s) = is_debug_m s"
  "ticks_skipped_m (store_time env s) = ticks_skipped_m s"
  "buf_m (store_time env s) = buf_m s"
  "trace (store_time env s) = trace s"
  by (simp_all add: prim_defs)

lemma STATUS_ISSET_iff:
  "STATUS_ISSET v (emit e s) = STATUS_ISSET v s"
  "STATUS_ISSET v (log_print txt s) = STATUS_ISSET v s"
  "STATUS_ISSET v (log_debug fmt s) = STATUS_ISSET v s"
  "STATUS_ISSET v (log_info fmt s) = STATUS_ISSET v s"
  "STATUS_ISSET v (log_error fmt s) = STATUS_ISSET v s"
  "STATUS_ISSET v (communication_send cmd len buf s) = STATUS_ISSET v s"
  "STATUS_ISSET v (sampgdk_SendRconCommand c s) = STATUS_ISSET v s"
  "STATUS_ISSET v (write_buf data s) = STATUS_ISSET v s"
  "STATUS_ISSET v (store_time env s) = STATUS_ISSET v s"
  "STATUS_ISSET {f} s = (f \<in> status_m s)"
  by (simp_all add: prim_defs)

subsection \<open>Observations of a longer trace\<close>

lemma sent_append: "sent (xs @ ys) = sent xs @ sent ys"
  by (induction xs rule: sent.induct) simp_all

lemma allocated_append: "allocated (xs @ ys) = allocated xs @ allocated ys"
  by (induction xs rule: allocated.induct) simp_all

lemma released_append: "released (xs @ ys) = released xs @ released ys"
  by (induction xs rule: released.induct) simp_all

lemma ticks_sent_append: "ticks_sent (xs @ ys) = ticks_sent xs + ticks_sent ys"
  by (simp add: ticks_sent_def sent_append)

lemma ticks_sent_Nil: "ticks_sent [] = 0"
  by (simp add: ticks_sent_def)

lemma ticks_sent_Cons:
  "ticks_sent (e # es) =
     (case e of Send c p \<Rightarrow> (if c = CMD_TICK then 1 else 0) | _ \<Rightarrow> 0) + ticks_sent es"
  by (cases e) (simp_all add: ticks_sent_def)

lemma live_append: "live (xs @ ys) = live xs + live ys"
  by (simp add: live_def allocated_append released_append)

lemma live_Nil: "live [] = 0"
  by (simp add: live_def)

lemma live_Cons:
  "live (e # es) = (case e of New r \<Rightarrow> 1 | Delete r \<Rightarrow> - 1 | _ \<Rightarrow> 0) + live es"
  by (cases e) (simp_all add: live_def)

lemmas trace_obs = ticks_sent_append ticks_sent_Nil ticks_sent_Cons live_append live_Nil live_Cons

subsection \<open>What receiving leaves alone\<close>

lemma receive_frame_refl: "receive_frame s s"
  by (simp add: receive_frame_def)

lemma receive_frame_trans:
  "receive_frame s s1 \<Longrightarrow> receive_frame s1 s2 \<Longrightarrow> receive_frame s s2"
  by (auto simp add: receive_frame_def)

lemma frame_connect: "receive_frame s (snd (connect env s))"
  by (simp add: connect_def cmd_send_announce_def Let_def receive_frame_def prim_sel
        trace_obs cmd_defs)

lemma frame_disconnect: "receive_frame s (disconnect env context expected s)"
  by (simp add: disconnect_def Let_def receive_frame_def prim_sel trace_obs cmd_defs)


lemma frame_handlers:
  "receive_frame s (cmd_ping env buf buflen s)"
  "receive_frame s (cmd_print env buf buflen s)"
  "receive_frame s (cmd_alive env buf buflen s)"
  "receive_frame s (cmd_register_call env buf buflen s)"
  "receive_frame s (cmd_find_native env buf buflen s)"
  "receive_frame s (cmd_invoke_native env buf buflen s)"
  "receive_frame s (cmd_disconnect env buf buflen s)"
  by (simp_all add: cmd_ping_def cmd_print_def cmd_alive_def cmd_register_call_def
        cmd_find_native_def cmd_invoke_native_def cmd_disconnect_def Let_def
        receive_frame_def prim_sel trace_obs cmd_defs)

lemma frame_reconnect: "receive_frame s (cmd_reconnect env buf buflen s)"
  unfolding cmd_reconnect_def
  by (rule receive_frame_trans [OF _ frame_disconnect])
     (simp add: receive_frame_def prim_sel trace_obs)

lemma frame_fill_call_buffer:
  "receive_frame s (snd (fill_call_buffer env amx name params s))"
  by (simp add: fill_call_buffer_def receive_frame_def prim_sel split: option.splits)


lemma frame_fake_gmx:
  assumes recv: "\<forall>x ok r l x1. recv x = Some (ok, r, l, x1) \<longrightarrow> receive_frame x x1"
    and run: "cmd_start_fake_gmx recv env s = Some s1"
  shows "receive_frame s s1"
proof (cases "callbacks_fill_call_buffer env (trace s) 0 ''OnGameModeInit'' [0] (LEN_NETBUF env)")
  case None
  with run show ?thesis
    by (auto simp add: cmd_start_fake_gmx_def fill_call_buffer_def Let_def receive_frame_def
          prim_sel)
next
  case (Some data)
  let ?s4 = "write_buf data (STATUS_SET {status_client_received_init} s)"
  let ?s5 = "communication_send CMD_PUBLIC_CALL (length data) (buf_m ?s4) ?s4"
  have a: "receive_frame s ?s5"
    by (simp add: receive_frame_def prim_sel trace_obs cmd_defs)
  show ?thesis
  proof (cases "recv ?s5")
    case None
    with run Some show ?thesis
      by (simp add: cmd_start_fake_gmx_def fill_call_buffer_def Let_def prim_sel)
  next
    case got: (Some res)
    obtain ok r l x1 where res: "res = (ok, r, l, x1)" by (cases res)
    from recv got res have b: "receive_frame ?s5 x1" by blast
    from run Some got res have c: "receive_frame x1 s1"
      by (auto simp add: cmd_start_fake_gmx_def fill_call_buffer_def Let_def prim_sel
            receive_frame_def trace_obs split: option.splits if_splits)
    from a b c show ?thesis by (blast intro: receive_frame_trans)
  qed
qed

lemma frame_start_rec:
  assumes recv: "\<forall>x ok r l x1. recv x = Some (ok, r, l, x1) \<longrightarrow> receive_frame x x1"
    and run: "cmd_start_rec recv env buf buflen s = Some s1"
  shows "receive_frame s s1"
proof -
  let ?s0 = "log_debug ''Using 'fake gmx' start method''
               (STATUS_SET {status_client_started} (log_info ''The gamemode has started.'' s))"
  have a: "receive_frame s ?s0"
    by (simp add: receive_frame_def prim_sel trace_obs)
  from run have "receive_frame s s1 \<or> cmd_start_fake_gmx recv env ?s0 = Some s1"
    by (auto simp add: cmd_start_rec_def Let_def receive_frame_def prim_sel trace_obs
          split: if_splits)
  moreover have "cmd_start_fake_gmx recv env ?s0 = Some s1 \<Longrightarrow> receive_frame ?s0 s1"
    by (rule frame_fake_gmx [OF recv])
  ultimately show ?thesis
    using a by (blast intro: receive_frame_trans)
qed


lemma frame_process_rec:
  assumes recv: "\<forall>x ok r l x1. recv x = Some (ok, r, l, x1) \<longrightarrow> receive_frame x x1"
    and run: "cmd_process_rec recv env cmd buf buflen resp resplen s = Some (stat, resp1, len1, s1)"
  shows "receive_frame s s1"
proof (cases "cmd = CMD_START")
  case True
  with run have "cmd_start_rec recv env buf buflen s = Some s1"
    by (auto simp add: cmd_process_rec_def cmd_defs split: option.splits)
  then show ?thesis by (rule frame_start_rec [OF recv])
next
  case False
  have new: "receive_frame s (emit (New b) s)" for b
    by (simp add: receive_frame_def prim_sel trace_obs)
  from False run show ?thesis
    by (auto simp add: cmd_process_rec_def frame_handlers frame_reconnect new
          receive_frame_refl split: if_splits)
qed

lemma frame_receive_one_rec:
  assumes recv: "\<forall>x ok r l x1. recv x = Some (ok, r, l, x1) \<longrightarrow> receive_frame x x1"
    and run: "cmd_receive_one_rec recv env resp len s = Some (stat, resp1, len1, s1)"
  shows "receive_frame s s1"
proof -
  obtain c x where conn: "connect env s = (c, x)" by (cases "connect env s")
  have a: "receive_frame s x" using frame_connect [of s env] conn by simp
  obtain st command payload where rx: "comm_receive env (trace x) = (st, command, payload)"
    by (cases "comm_receive env (trace x)")
  let ?s2 = "write_buf payload (emit CommReceive x)"
  have b: "receive_frame x ?s2"
    by (simp add: receive_frame_def prim_sel trace_obs)
  have c: "receive_frame ?s2 (store_time env ?s2)"
    by (simp add: receive_frame_def prim_sel)
  show ?thesis
  proof (cases "c \<and> st \<noteq> conn_dead \<and> st \<noteq> no_cmd")
    case True
    with run conn rx have
      "cmd_process_rec recv env command (buf_m ?s2) (length payload) resp len
         (store_time env ?s2) = Some (stat, resp1, len1, s1)"
      by (simp add: cmd_receive_one_rec_def Let_def)
    from frame_process_rec [OF recv this] a b c show ?thesis
      by (blast intro: receive_frame_trans)
  next
    case False
    with run conn rx have "s1 = x \<or> s1 = ?s2"
      by (cases c) (auto simp add: cmd_receive_one_rec_def Let_def split: if_splits)
    with a b show ?thesis
      by (blast intro: receive_frame_trans)
  qed
qed

lemma frame_receive_unhandled:
  "\<forall>s ok resp len s1. cmd_receive_unhandled n env s = Some (ok, resp, len, s1)
     \<longrightarrow> receive_frame s s1"
proof (induction n)
  case 0
  show ?case by simp
next
  case (Suc n)
  show ?case
  proof (intro allI impI)
    fix s ok resp len s1
    assume run: "cmd_receive_unhandled (Suc n) env s = Some (ok, resp, len, s1)"
    then obtain res where
      one: "cmd_receive_one_rec (cmd_receive_unhandled n env) env None 0 s = Some res"
      by (auto split: option.splits)
    obtain stat r l x where res: "res = (stat, r, l, x)" by (cases res)
    from frame_receive_one_rec [OF Suc.IH] one res have a: "receive_frame s x" by blast
    from run one res have "s1 = x \<or> cmd_receive_unhandled n env x = Some (ok, resp, len, s1)"
      by (auto split: if_splits)
    with a Suc.IH show "receive_frame s s1"
      by (blast intro: receive_frame_trans)
  qed
qed

lemma frame_receive_one:
  "cmd_receive_one n env resp len s = Some (stat, resp1, len1, s1) \<Longrightarrow> receive_frame s s1"
  unfolding cmd_receive_one_def
  by (rule frame_receive_one_rec [OF frame_receive_unhandled])

lemma frame_tick_receive:
  "tick_receive n env resp len s = Some s1 \<Longrightarrow> receive_frame s s1"
proof (induction n arbitrary: s resp len)
  case 0
  then show ?case by simp
next
  case (Suc n)
  from Suc.prems obtain res where one: "cmd_receive_one n env resp len s = Some res"
    by (auto split: option.splits)
  obtain stat r l x where res: "res = (stat, r, l, x)" by (cases res)
  let ?x2 = "case r of None \<Rightarrow> x
             | Some b \<Rightarrow> emit (Delete b) (log_error ''Unhandled response in tick.'' x)"
  have a: "receive_frame x ?x2"
    by (simp add: receive_frame_def prim_sel trace_obs split: option.splits)
  from one res have b: "receive_frame s x" by (simp add: frame_receive_one)
  from Suc.prems one res have "s1 = ?x2 \<or> tick_receive n env r l ?x2 = Some s1"
    by (auto simp add: Let_def split: if_splits)
  with a b Suc.IH show ?case
    by (blast intro: receive_frame_trans)
qed

subsection \<open>More fuel changes no result\<close>

lemma fake_gmx_mono:
  assumes le: "\<forall>x res. recv x = Some res \<longrightarrow> recv1 x = Some res"
    and run: "cmd_start_fake_gmx recv env s = Some s1"
  shows "cmd_start_fake_gmx recv1 env s = Some s1"
proof (cases "fill_call_buffer env 0 ''OnGameModeInit'' [0]
                (STATUS_SET {status_client_received_init} s)")
  case (Pair len s4)
  show ?thesis
  proof (cases len)
    case None
    with run Pair show ?thesis by (simp add: cmd_start_fake_gmx_def Let_def)
  next
    case (Some k)
    let ?s5 = "communication_send CMD_PUBLIC_CALL k (buf_m s4) s4"
    from run Pair Some obtain res where got: "recv ?s5 = Some res"
      by (auto simp add: cmd_start_fake_gmx_def Let_def split: option.splits)
    with le have "recv1 ?s5 = Some res" by blast
    with run Pair Some got show ?thesis
      by (simp add: cmd_start_fake_gmx_def Let_def)
  qed
qed


lemma start_rec_mono:
  assumes le: "\<forall>x res. recv x = Some res \<longrightarrow> recv1 x = Some res"
    and run: "cmd_start_rec recv env buf buflen s = Some s1"
  shows "cmd_start_rec recv1 env buf buflen s = Some s1"
proof -
  let ?s0 = "log_debug ''Using 'fake gmx' start method''
               (STATUS_SET {status_client_started} (log_info ''The gamemode has started.'' s))"
  show ?thesis
  proof (cases "buflen \<noteq> 0 \<and> byte_at buf 0 = 2 \<and> STATUS_ISSET {status_server_received_init} ?s0")
    case True
    then have eq: "cmd_start_rec f env buf buflen s = cmd_start_fake_gmx f env ?s0" for f
      by (simp add: cmd_start_rec_def Let_def)
    from run have "cmd_start_fake_gmx recv env ?s0 = Some s1" by (simp only: eq)
    from fake_gmx_mono [OF le this] show ?thesis by (simp only: eq)
  next
    case False
    then have "cmd_start_rec f env buf buflen s = cmd_start_rec g env buf buflen s" for f g
      by (auto simp add: cmd_start_rec_def Let_def)
    with run show ?thesis by metis
  qed
qed


lemma process_rec_mono:
  assumes le: "\<forall>x res. recv x = Some res \<longrightarrow> recv1 x = Some res"
    and run: "cmd_process_rec recv env cmd buf buflen resp resplen s = Some res"
  shows "cmd_process_rec recv1 env cmd buf buflen resp resplen s = Some res"
proof (cases "cmd = CMD_START")
  case True
  then have eq: "cmd_process_rec f env cmd buf buflen resp resplen s =
      (case cmd_start_rec f env buf buflen s of
         None \<Rightarrow> None | Some s1 \<Rightarrow> Some (handled, resp, resplen, s1))" for f
    by (simp add: cmd_process_rec_def cmd_defs)
  from run obtain s1 where s1: "cmd_start_rec recv env buf buflen s = Some s1"
    and res: "res = (handled, resp, resplen, s1)"
    by (auto simp add: eq split: option.splits)
  from start_rec_mono [OF le s1] res show ?thesis by (simp add: eq)
next
  case False
  then have "cmd_process_rec f env cmd buf buflen resp resplen s =
             cmd_process_rec g env cmd buf buflen resp resplen s" for f g
    by (simp add: cmd_process_rec_def)
  with run show ?thesis by metis
qed

lemma receive_one_rec_mono:
  assumes le: "\<forall>x res. recv x = Some res \<longrightarrow> recv1 x = Some res"
    and run: "cmd_receive_one_rec recv env resp len s = Some res"
  shows "cmd_receive_one_rec recv1 env resp len s = Some res"
proof -
  obtain c x where conn: "connect env s = (c, x)" by (cases "connect env s")
  obtain st command payload where rx: "comm_receive env (trace x) = (st, command, payload)"
    by (cases "comm_receive env (trace x)")
  let ?s2 = "write_buf payload (emit CommReceive x)"
  show ?thesis
  proof (cases "c \<and> st \<noteq> conn_dead \<and> st \<noteq> no_cmd")
    case True
    with conn rx have eq: "cmd_receive_one_rec f env resp len s =
        cmd_process_rec f env command (buf_m ?s2) (length payload) resp len
          (store_time env ?s2)" for f
      by (simp add: cmd_receive_one_rec_def Let_def)
    from run have "cmd_process_rec recv env command (buf_m ?s2) (length payload) resp len
          (store_time env ?s2) = Some res" by (simp only: eq)
    from process_rec_mono [OF le this] show ?thesis by (simp only: eq)
  next
    case False
    with conn rx have "cmd_receive_one_rec f env resp len s =
                       cmd_receive_one_rec g env resp len s" for f g
      by (cases c) (auto simp add: cmd_receive_one_rec_def Let_def)
    with run show ?thesis by metis
  qed
qed

lemma receive_unhandled_Suc:
  "\<forall>s res. cmd_receive_unhandled n env s = Some res
     \<longrightarrow> cmd_receive_unhandled (Suc n) env s = Some res"
proof (induction n)
  case 0
  show ?case by simp
next
  case (Suc n)
  show ?case
  proof (intro allI impI)
    fix s res
    assume run: "cmd_receive_unhandled (Suc n) env s = Some res"
    then obtain one where
      one: "cmd_receive_one_rec (cmd_receive_unhandled n env) env None 0 s = Some one"
      by (auto split: option.splits)
    from receive_one_rec_mono [OF Suc.IH one]
    have one1: "cmd_receive_one_rec (cmd_receive_unhandled (Suc n) env) env None 0 s = Some one" .
    obtain stat r l x where res: "one = (stat, r, l, x)" by (cases one)
    show "cmd_receive_unhandled (Suc (Suc n)) env s = Some res"
    proof (cases "stat = handled \<or> stat = no_cmd")
      case True
      with run one res have "cmd_receive_unhandled n env x = Some res" by simp
      with Suc.IH have "cmd_receive_unhandled (Suc n) env x = Some res" by blast
      with one1 res True show ?thesis
        by (simp del: cmd_receive_unhandled.simps add: cmd_receive_unhandled.simps(2) [of "Suc n"])
    next
      case False
      with run one res have "res = (stat = unhandled, r, l, x)" by simp
      with one1 res False show ?thesis
        by (simp del: cmd_receive_unhandled.simps add: cmd_receive_unhandled.simps(2) [of "Suc n"])
    qed
  qed
qed

lemma receive_unhandled_mono:
  "n \<le> m \<Longrightarrow> cmd_receive_unhandled n env s = Some res
     \<Longrightarrow> cmd_receive_unhandled m env s = Some res"
proof (induction m)
  case 0
  then show ?case by simp
next
  case (Suc m)
  show ?case
  proof (cases "n = Suc m")
    case True
    with Suc.prems show ?thesis by simp
  next
    case False
    with Suc.prems have "n \<le> m" by simp
    with Suc have "cmd_receive_unhandled m env s = Some res" by blast
    with receive_unhandled_Suc show ?thesis by blast
  qed
qed

lemma receive_one_mono:
  assumes "n \<le> m" and "cmd_receive_one n env resp len s = Some res"
  shows "cmd_receive_one m env resp len s = Some res"
proof -
  from assms(1) have "\<forall>x r. cmd_receive_unhandled n env x = Some r
                        \<longrightarrow> cmd_receive_unhandled m env x = Some r"
    by (blast intro: receive_unhandled_mono)
  from receive_one_rec_mono [OF this] assms(2) show ?thesis
    by (simp add: cmd_receive_one_def)
qed

subsection \<open>The receive loop and the specification's description of it\<close>

lemma receive_until_complete:
  "cmd_receive_unhandled n env s = Some res \<Longrightarrow> receive_until env s res"
proof (induction n arbitrary: s)
  case 0
  then show ?case by simp
next
  case (Suc n)
  from Suc.prems obtain one where one: "cmd_receive_one n env None 0 s = Some one"
    by (auto simp add: cmd_receive_one_def split: option.splits)
  obtain stat r l x where res: "one = (stat, r, l, x)" by (cases one)
  show ?case
  proof (cases "stat = handled \<or> stat = no_cmd")
    case True
    with Suc.prems one res have "cmd_receive_unhandled n env x = Some res"
      by (simp add: cmd_receive_one_def)
    then have "receive_until env x res" by (rule Suc.IH)
    with one res True show ?thesis by (blast intro: receive_until.skip)
  next
    case False
    with Suc.prems one res have r: "res = (stat = unhandled, r, l, x)"
      by (simp add: cmd_receive_one_def)
    from False have "stat = unhandled \<or> stat = conn_dead" by (cases stat) simp_all
    with one res show ?thesis unfolding r by (blast intro: receive_until.stop)
  qed
qed

lemma receive_until_sound:
  "receive_until env s res \<Longrightarrow> \<exists>n. cmd_receive_unhandled n env s = Some res"
proof (induction rule: receive_until.induct)
  case (stop m s stat response len s1)
  then have "cmd_receive_unhandled (Suc m) env s = Some (stat = unhandled, response, len, s1)"
    by (auto simp add: cmd_receive_one_def)
  then show ?case by blast
next
  case (skip m s stat response len s1 res)
  then obtain n where n: "cmd_receive_unhandled n env s1 = Some res" by blast
  let ?k = "max m n"
  from skip.hyps(1) have "cmd_receive_one ?k env None 0 s = Some (stat, response, len, s1)"
    by (rule receive_one_mono [rotated]) simp
  moreover from n have "cmd_receive_unhandled ?k env s1 = Some res"
    by (rule receive_unhandled_mono [rotated]) simp
  ultimately have "cmd_receive_unhandled (Suc ?k) env s = Some res"
    using skip.hyps(2) by (auto simp add: cmd_receive_one_def)
  then show ?case by blast
qed

subsection \<open>The reply to a native lookup\<close>

text \<open>
  C4. A \<open>find_native\<close> command with correlation id 0x2A whose name resolves to the handle
  -1 makes the server send exactly one command. Its payload is the six bytes
  \<open>2A 00 FF FF FF FF\<close> of the claim; its opcode is \<open>CMD_RESPONSE\<close> (0x03), as in line 101,
  and not the \<open>CMD_REPLY\<close> (0x14) that the claim and the comment of line 45 give.
\<close>

theorem cmd_find_native_reply:
  assumes "byte_at buf 0 = 0x2A" and "byte_at buf 1 = 0x00"
    and "natives_get_handle env (trace s @ [LogDebug ''Find native w/%d data''])
           (cstring (drop 2 buf)) = - 1"
  shows "cmd_process n env CMD_FIND_NATIVE buf buflen resp resplen s =
           Some (handled, resp, resplen,
             s\<lparr>trace := trace s @
                [LogDebug ''Find native w/%d data'', GetHandle (cstring (drop 2 buf)),
                 Send CMD_RESPONSE [0x2A, 0x00, 0xFF, 0xFF, 0xFF, 0xFF]]\<rparr>)
       \<and> sent (trace (cmd_find_native env buf buflen s)) =
           sent (trace s) @ [(0x03, [0x2A, 0x00, 0xFF, 0xFF, 0xFF, 0xFF])]
       \<and> CMD_RESPONSE \<noteq> CMD_REPLY"
  using assms
  by (simp add: cmd_process_def cmd_process_rec_def cmd_defs cmd_find_native_def prim_defs
        le32_not_found sent_append Let_def)

text \<open>The command \<open>2A 00 41 42 00\<close> asks for the native \<open>AB\<close>, which is not found.\<close>

theorem cmd_find_native_reply_witness:
  "cmd_process 0 (script_env [] 0) CMD_FIND_NATIVE [0x2A, 0x00, 0x41, 0x42, 0x00] 5 None 0
     (server_with {} 0 0 False 0)
   = Some (handled, None, 0,
       (server_with {} 0 0 False 0)\<lparr>trace :=
          [LogDebug ''Find native w/%d data'', GetHandle [0x41, 0x42],
           Send 0x03 [0x2A, 0x00, 0xFF, 0xFF, 0xFF, 0xFF]]\<rparr>)"
proof -
  let ?buf = "[0x2A, 0x00, 0x41, 0x42, 0x00] :: bytes"
  have h: "byte_at ?buf 0 = 0x2A" "byte_at ?buf 1 = 0x00"
    "natives_get_handle (script_env [] 0)
       (trace (server_with {} 0 0 False 0) @ [LogDebug ''Find native w/%d data''])
       (cstring (drop 2 ?buf)) = - 1"
    by (simp_all add: byte_at_def script_env_def)
  from cmd_find_native_reply [OF h, of 0 5 None 0] show ?thesis
    by (simp add: cstring_def server_with_def cmd_defs)
qed

subsection \<open>Disconnecting\<close>

text \<open>
  C5. On a connected client, an expected disconnect, which is the one a reconnect command
  makes, clears neither registry; a disconnect the client announced and an unexpected one
  both clear the native and the callback registry. In the three cases the transport is
  disconnected and set up again and \<open>status_client_connected\<close> is cleared.
\<close>

theorem disconnect_registries:
  assumes "is_client_connected env s"
  shows "disconnect env context True s =
           s\<lparr>status_m := status_m s - {status_client_connected},
              trace := trace s @ [LogInfo ''Client disconnected.'', SignalDisconnect,
                                  CommDisconnect, CommSetup]\<rparr>
       \<and> (status_client_disconnecting \<in> status_m s \<longrightarrow>
            disconnect env context False s =
              s\<lparr>status_m := status_m s - {status_client_started, status_client_disconnecting}
                                        - {status_client_connected},
                 trace := trace s @ [LogInfo ''Client disconnected.'', SignalDisconnect,
                                     NativesClear, CallbacksClear, CommDisconnect, CommSetup]\<rparr>)
       \<and> (status_client_disconnecting \<notin> status_m s \<longrightarrow>
            disconnect env context False s =
              s\<lparr>status_m := status_m s - {status_client_started} - {status_client_connected},
                 trace := trace s @ [LogError ''Unexpected disconnect of client. %s'',
                                     SignalError, NativesClear, CallbacksClear,
                                     CommDisconnect, CommSetup]\<rparr>)
       \<and> (comm_is_connected env (trace s @ [LogInfo ''The gamemode is reconnecting.'']) \<longrightarrow>
            cmd_reconnect env buf buflen s =
              s\<lparr>status_m := status_m s \<union> {status_client_reconnecting}
                                        - {status_client_connected},
                 trace := trace s @ [LogInfo ''The gamemode is reconnecting.'',
                                     LogInfo ''Client disconnected.'', SignalDisconnect,
                                     CommDisconnect, CommSetup]\<rparr>)
       \<and> status_client_connected \<notin> status_m (disconnect env context expected s)"
  using assms
  by (auto simp add: disconnect_def is_client_connected_def cmd_reconnect_def prim_defs Let_def)

theorem disconnect_registries_witness:
  "is_client_connected (script_env [] 0)
     (server_with {status_client_connected, status_client_started} 0 0 False 0)
   \<and> trace (cmd_reconnect (script_env [] 0) [] 0
        (server_with {status_client_connected, status_client_started} 0 0 False 0)) =
       [LogInfo ''The gamemode is reconnecting.'', LogInfo ''Client disconnected.'',
        SignalDisconnect, CommDisconnect, CommSetup]
   \<and> trace (disconnect (script_env [] 0) None False
        (server_with {status_client_connected, status_client_started} 0 0 False 0)) =
       [LogError ''Unexpected disconnect of client. %s'', SignalError, NativesClear,
        CallbacksClear, CommDisconnect, CommSetup]
   \<and> trace (disconnect (script_env [] 0) None False
        (server_with {status_client_connected, status_client_started,
                      status_client_disconnecting} 0 0 False 0)) =
       [LogInfo ''Client disconnected.'', SignalDisconnect, NativesClear,
        CallbacksClear, CommDisconnect, CommSetup]
   \<and> status_m (disconnect (script_env [] 0) None False
        (server_with {status_client_connected, status_client_started} 0 0 False 0)) = {}"
proof -
  let ?s = "server_with {status_client_connected, status_client_started} 0 0 False 0"
  let ?d = "server_with {status_client_connected, status_client_started,
                         status_client_disconnecting} 0 0 False 0"
  have h: "is_client_connected (script_env [] 0) ?s"
    and g: "is_client_connected (script_env [] 0) ?d"
    by (simp_all add: is_client_connected_def script_env_def server_with_def STATUS_ISSET_def)
  have c: "comm_is_connected (script_env [] 0)
             (trace ?s @ [LogInfo ''The gamemode is reconnecting.''])"
    by (simp add: script_env_def)
  from disconnect_registries [OF h, of None "[]" 0] disconnect_registries [OF g, of None "[]" 0]
  show ?thesis
    using h c by (auto simp add: server_with_def)
qed

subsection \<open>The start command\<close>

text \<open>
  C9, as the code has it. A start command whose mode byte is none of 0, 1 and 2 sets
  \<open>status_client_started\<close>, as every start command does, and logs the start and the
  invalid mode. It sends no command, changes no other flag and no other member, and
  neither restarts the host nor calls \<open>OnGameModeInit\<close>.
\<close>

theorem cmd_start_invalid_mode:
  assumes "buflen \<noteq> 0" and "byte_at buf 0 \<notin> {0, 1, 2}"
  shows "cmd_start n env buf buflen s =
           Some (s\<lparr>status_m := status_m s \<union> {status_client_started},
                   trace := trace s @ [LogInfo ''The gamemode has started.'',
                                       LogError ''Invalid game mode start mode'']\<rparr>)"
  using assms by (simp add: cmd_start_def cmd_start_rec_def prim_defs Let_def)

theorem cmd_start_invalid_mode_witness:
  "cmd_start 0 (script_env [] 0) [3] 1 (server_with {} 0 0 False 0) =
     Some ((server_with {} 0 0 False 0)
             \<lparr>status_m := {status_client_started},
              trace := [LogInfo ''The gamemode has started.'',
                        LogError ''Invalid game mode start mode'']\<rparr>)"
proof -
  have h1: "(1::nat) \<noteq> 0" by simp
  have h2: "byte_at [3] 0 \<notin> {0, 1, 2}" by (simp add: byte_at_def)
  from cmd_start_invalid_mode [OF h1 h2, of 0 "script_env [] 0" "server_with {} 0 0 False 0"]
  show ?thesis by (simp add: server_with_def)
qed

text \<open>
  The claim as stated fails: on an instance with no flag set, the start command with
  mode 3 leaves \<open>status_client_started\<close> set.
\<close>

theorem cmd_start_invalid_mode_counterexample:
  "status_m (server_with {} 0 0 False 0) = {}
   \<and> map_option status_m (cmd_start 0 (script_env [] 0) [3] 1 (server_with {} 0 0 False 0)) =
       Some {status_client_started}"
  by (simp add: cmd_start_def cmd_start_rec_def prim_defs Let_def server_with_def byte_at_def)

subsection \<open>The debugger heuristic\<close>

text \<open>
  C6, as the code has it. \<open>is_debugging\<close> returns false when the debug check is off.
  When it is on, the peer counts as paused exactly when the time of the last tick sent
  (\<open>tick_m\<close>, not the current time) minus the time of the last command received is at
  least 5, and \<open>is_debugging\<close> returns this, except that a call from the tick returns
  false for the keepalive: with the last command at \<open>T\<close> it returns false for a last tick
  at \<open>T + 4\<close> and, when not called from the tick, true for one at \<open>T + 6\<close>. On every call,
  from the tick or not, a pause or a resume is logged exactly when the classification
  differs from \<open>is_debug_m\<close>, which then holds the new value, so that the next call, from
  the tick or not, logs no pause and no resume.
\<close>

theorem is_debugging_classification:
  "(\<not> debug_check_m s \<longrightarrow> is_debugging env is_tick s = (False, s))
   \<and> (debug_check_m s \<longrightarrow>
        fst (is_debugging env False s) = (tick_m s - sol_m s \<ge> 5)
      \<and> fst (is_debugging env True s) =
          (tick_m s - sol_m s \<ge> 5
           \<and> \<not> (is_debug_m s \<and> 7 \<le> time_NULL env (trace s) - tick_m s
                  \<and> 50 < ticks_skipped_m s))
      \<and> is_debug_m (snd (is_debugging env is_tick s)) = (tick_m s - sol_m s \<ge> 5)
      \<and> tick_m (snd (is_debugging env is_tick s)) = tick_m s
      \<and> sol_m (snd (is_debugging env is_tick s)) = sol_m s
      \<and> debug_check_m (snd (is_debugging env is_tick s))
      \<and> trace (snd (is_debugging env is_tick s)) =
          trace s
          @ (if tick_m s - sol_m s \<ge> 5 \<and> \<not> is_debug_m s
             then [LogInfo ''Debugger pause detected.'']
             else if \<not> tick_m s - sol_m s \<ge> 5 \<and> is_debug_m s
             then [LogInfo ''Debugger resume detected.'']
             else [])
          @ (if is_tick \<and> tick_m s - sol_m s \<ge> 5 \<and> is_debug_m s
                \<and> 7 \<le> time_NULL env (trace s) - tick_m s \<and> 50 < ticks_skipped_m s
             then [LogDebug ''Keepalive tick.'']
             else [])
      \<and> LogInfo ''Debugger pause detected.''
          \<notin> set (drop (length (trace (snd (is_debugging env is_tick s))))
                  (trace (snd (is_debugging env again (snd (is_debugging env is_tick s))))))
      \<and> LogInfo ''Debugger resume detected.''
          \<notin> set (drop (length (trace (snd (is_debugging env is_tick s))))
                  (trace (snd (is_debugging env again (snd (is_debugging env is_tick s))))))
      \<and> trace (snd (is_debugging env False (snd (is_debugging env False s)))) =
          trace (snd (is_debugging env False s)))
   \<and> (debug_check_m s \<and> sol_m s = T \<and> tick_m s = T + 4 \<longrightarrow> \<not> fst (is_debugging env is_tick s))
   \<and> (debug_check_m s \<and> sol_m s = T \<and> tick_m s = T + 6 \<longrightarrow> fst (is_debugging env False s))"
proof -
  let ?paused = "tick_m s - sol_m s \<ge> 5"
  let ?edge = "if ?paused \<and> \<not> is_debug_m s
             then [LogInfo ''Debugger pause detected.'']
             else if \<not> ?paused \<and> is_debug_m s
             then [LogInfo ''Debugger resume detected.'']
             else []"
  have tr: "trace (snd (is_debugging e t x)) =
          trace x
          @ (if tick_m x - sol_m x \<ge> 5 \<and> \<not> is_debug_m x
             then [LogInfo ''Debugger pause detected.'']
             else if \<not> tick_m x - sol_m x \<ge> 5 \<and> is_debug_m x
             then [LogInfo ''Debugger resume detected.'']
             else [])
          @ (if t \<and> tick_m x - sol_m x \<ge> 5 \<and> is_debug_m x
                \<and> 7 \<le> time_NULL e (trace x) - tick_m x \<and> 50 < ticks_skipped_m x
             then [LogDebug ''Keepalive tick.'']
             else [])"
    if "debug_check_m x" for e t x
    using that
    by (simp add: is_debugging_def DEBUG_PAUSE_TIMEOUT_def DEBUG_PAUSE_TICK_INTERVAL_def
          DEBUG_PAUSE_TICK_MIN_SKIP_def prim_sel Let_def)
  have keep: "is_debug_m (snd (is_debugging e t x)) = (tick_m x - sol_m x \<ge> 5)
      \<and> tick_m (snd (is_debugging e t x)) = tick_m x
      \<and> sol_m (snd (is_debugging e t x)) = sol_m x
      \<and> debug_check_m (snd (is_debugging e t x))"
    if "debug_check_m x" for e t x
    using that
    by (simp add: is_debugging_def DEBUG_PAUSE_TIMEOUT_def prim_sel Let_def)
  have off: "is_debugging env is_tick s = (False, s)" if "\<not> debug_check_m s"
    using that by (simp add: is_debugging_def)
  have ret: "fst (is_debugging env False s) = ?paused
      \<and> fst (is_debugging env True s) =
          (?paused \<and> \<not> (is_debug_m s \<and> 7 \<le> time_NULL env (trace s) - tick_m s
                         \<and> 50 < ticks_skipped_m s))"
    if "debug_check_m s"
    using that
    by (auto simp add: is_debugging_def DEBUG_PAUSE_TIMEOUT_def DEBUG_PAUSE_TICK_INTERVAL_def
          DEBUG_PAUSE_TICK_MIN_SKIP_def prim_sel Let_def)
  have again: "LogInfo ''Debugger pause detected.''
          \<notin> set (drop (length (trace (snd (is_debugging env is_tick s))))
                  (trace (snd (is_debugging env t (snd (is_debugging env is_tick s))))))
      \<and> LogInfo ''Debugger resume detected.''
          \<notin> set (drop (length (trace (snd (is_debugging env is_tick s))))
                  (trace (snd (is_debugging env t (snd (is_debugging env is_tick s))))))"
    if d: "debug_check_m s" for t
  proof -
    let ?x = "snd (is_debugging env is_tick s)"
    from keep [OF d, of env is_tick] have k: "is_debug_m ?x = (tick_m ?x - sol_m ?x \<ge> 5)"
      and dx: "debug_check_m ?x"
      by simp_all
    from tr [OF dx, of env t] k show ?thesis by auto
  qed
  have twice: "trace (snd (is_debugging env False (snd (is_debugging env False s)))) =
          trace (snd (is_debugging env False s))"
    if d: "debug_check_m s"
  proof -
    let ?x = "snd (is_debugging env False s)"
    from keep [OF d, of env False] have k: "is_debug_m ?x = (tick_m ?x - sol_m ?x \<ge> 5)"
      and dx: "debug_check_m ?x"
      by simp_all
    from tr [OF dx, of env False] k show ?thesis by auto
  qed
  have four: "\<not> fst (is_debugging env is_tick s)"
    if "debug_check_m s \<and> sol_m s = T \<and> tick_m s = T + 4"
    using that
    by (auto simp add: is_debugging_def DEBUG_PAUSE_TIMEOUT_def prim_sel Let_def)
  have six: "fst (is_debugging env False s)"
    if "debug_check_m s \<and> sol_m s = T \<and> tick_m s = T + 6"
    using that ret by auto
  from off ret keep [of s env is_tick] tr [of s env is_tick] again [of again] twice four six
  show ?thesis by blast
qed

text \<open>
  The last command was received at 100 and the last tick sent at 106: the call from the
  tick logs the pause and returns true, and a second call from the tick logs nothing.
  With the last tick at 104 the call returns false.
\<close>

theorem is_debugging_classification_witness:
  "debug_check_m (server_with {} 100 106 False 0)
   \<and> is_debugging (script_env [] 106) True (server_with {} 100 106 False 0) =
       (True, (server_with {} 100 106 False 0)
                \<lparr>is_debug_m := True, trace := [LogInfo ''Debugger pause detected.'']\<rparr>)
   \<and> trace (snd (is_debugging (script_env [] 106) True
               (snd (is_debugging (script_env [] 106) True
                       (server_with {} 100 106 False 0))))) =
       [LogInfo ''Debugger pause detected.'']
   \<and> is_debugging (script_env [] 106) False (server_with {} 100 106 False 0) =
       (True, (server_with {} 100 106 False 0)
                \<lparr>is_debug_m := True, trace := [LogInfo ''Debugger pause detected.'']\<rparr>)
   \<and> fst (is_debugging (script_env [] 104) False (server_with {} 100 104 False 0)) = False"
proof -
  have h: "debug_check_m (server_with {} 100 106 False 0)"
    by (simp add: server_with_def)
  have g: "debug_check_m (server_with {} 100 104 False 0)"
    by (simp add: server_with_def)
  from is_debugging_classification
         [of "server_with {} 100 106 False 0" "script_env [] 106" True True 100]
       is_debugging_classification
         [of "server_with {} 100 104 False 0" "script_env [] 104" False False 100]
  show ?thesis
    using h g
    by (simp add: server_with_def script_env_def is_debugging_def DEBUG_PAUSE_TIMEOUT_def
          DEBUG_PAUSE_TICK_INTERVAL_def DEBUG_PAUSE_TICK_MIN_SKIP_def prim_defs Let_def)
qed

text \<open>
  The claim as stated fails: the last command was received at 100, the last tick sent at
  100 and the clock shows 106, six units after the last command; the peer is not
  classified as paused.
\<close>

theorem is_debugging_counterexample:
  "time_NULL (script_env [] 106) (trace (server_with {} 100 100 False 0))
     - sol_m (server_with {} 100 100 False 0) = 6
   \<and> debug_check_m (server_with {} 100 100 False 0)
   \<and> fst (is_debugging (script_env [] 106) False (server_with {} 100 100 False 0)) = False"
  by (simp add: is_debugging_def DEBUG_PAUSE_TIMEOUT_def prim_defs Let_def server_with_def
        script_env_def)

subsection \<open>The receive loop\<close>

text \<open>
  C1, as the code has it. The receive loop returns a result exactly when calling
  \<open>cmd_receive_one\<close> repeatedly, discarding every handled command and every empty poll,
  reaches a first unhandled command or dead connection; the result is that of this last
  call, and true exactly for an unhandled command. For the script of a \<open>register_call\<close>,
  an \<open>invoke_native\<close> and a \<open>response\<close>, the loop returns true after the registration and
  the native call (with its reply sent), each once and in this order. When the payload of
  the response is not empty, the caller gets this payload, the one buffer allocated; when
  it is empty, nothing is allocated and the caller gets the null pointer and the length 0.
\<close>

theorem cmd_receive_unhandled_first_unhandled:
  "(receive_until env s res \<longleftrightarrow> (\<exists>n. cmd_receive_unhandled n env s = Some res))
   \<and> (\<exists>s1. cmd_receive_unhandled 3
           (script_env [(handled, CMD_REGISTER_CALL, p1), (handled, CMD_INVOKE_NATIVE, p2),
                        (handled, CMD_RESPONSE, p3)] now)
           (server_with st sol tck dbg sk)
         = Some (True, (if p3 = [] then None else Some p3), length p3, s1)
       \<and> trace s1 =
           [CommReceive, LogDebug ''Register call %s'', RegisterBuffer p1,
            CommReceive, Invoke (drop 2 (p2 @ drop (length p2) p1)) (u32_sub (length p2) 2),
            LogDebug ''Native invoked with %d buflen, response has %d buflen'',
            Send CMD_RESPONSE
              ([byte_at (p2 @ drop (length p2) p1) 0, byte_at (p2 @ drop (length p2) p1) 1]
                 @ [1, 0, 0, 0]),
            CommReceive]
           @ (if p3 = [] then [] else [New p3])
       \<and> allocated (trace s1) = (if p3 = [] then [] else [p3]))"
proof -
  have loop: "receive_until env s res \<longleftrightarrow> (\<exists>n. cmd_receive_unhandled n env s = Some res)"
    by (blast intro: receive_until_complete dest: receive_until_sound)
  have script: "\<exists>s1. cmd_receive_unhandled 3
           (script_env [(handled, CMD_REGISTER_CALL, p1), (handled, CMD_INVOKE_NATIVE, p2),
                        (handled, CMD_RESPONSE, p3)] now)
           (server_with st sol tck dbg sk)
         = Some (True, (if p3 = [] then None else Some p3), length p3, s1)
       \<and> trace s1 =
           [CommReceive, LogDebug ''Register call %s'', RegisterBuffer p1,
            CommReceive, Invoke (drop 2 (p2 @ drop (length p2) p1)) (u32_sub (length p2) 2),
            LogDebug ''Native invoked with %d buflen, response has %d buflen'',
            Send CMD_RESPONSE
              ([byte_at (p2 @ drop (length p2) p1) 0, byte_at (p2 @ drop (length p2) p1) 1]
                 @ [1, 0, 0, 0]),
            CommReceive]
           @ (if p3 = [] then [] else [New p3])
       \<and> allocated (trace s1) = (if p3 = [] then [] else [p3])"
  proof (cases "p3 = []")
    case True
    then show ?thesis
      by (simp add: numeral_3_eq_3 cmd_receive_one_rec_def connect_def script_env_def
            server_with_def cmd_process_rec_def cmd_defs cmd_register_call_def
            cmd_invoke_native_def prim_defs Let_def)
  next
    case False
    then show ?thesis
      by (simp add: numeral_3_eq_3 cmd_receive_one_rec_def connect_def script_env_def
            server_with_def cmd_process_rec_def cmd_defs cmd_register_call_def
            cmd_invoke_native_def prim_defs Let_def)
  qed
  from loop script show ?thesis by blast
qed

text \<open>
  A ping, an empty poll and a dead connection: the loop answers the ping, and returns
  false with no buffer at the dead connection. A registration, a native call and the
  response \<open>01 05 00 00 00\<close>: the loop returns the five bytes.
\<close>

theorem cmd_receive_unhandled_first_unhandled_witness:
  "receive_until (script_env [(handled, CMD_PING, []), (no_cmd, 0, []), (conn_dead, 0, [])] 5)
     (server_with {} 0 0 False 0)
     (False, None, 0,
      (server_with {} 0 0 False 0)
        \<lparr>sol_m := 5, trace := [CommReceive, Send CMD_PONG [], CommReceive, CommReceive]\<rparr>)
   \<and> map_option (\<lambda>(ok, r, l, s1). (ok, r, l, allocated (trace s1)))
        (cmd_receive_unhandled 3
          (script_env [(handled, CMD_REGISTER_CALL, [0x4F, 0x6E, 0x58, 0]),
                       (handled, CMD_INVOKE_NATIVE, [7, 0, 9, 9]),
                       (handled, CMD_RESPONSE, [1, 5, 0, 0, 0])] 5)
          (server_with {} 0 0 False 0)) =
       Some (True, Some [1, 5, 0, 0, 0], 5, [[1, 5, 0, 0, 0]])"
proof -
  let ?env = "script_env [(handled, CMD_PING, []), (no_cmd, 0, []), (conn_dead, 0, [])] 5"
  let ?res = "(False, None, 0,
      (server_with {} 0 0 False 0)
        \<lparr>sol_m := 5, trace := [CommReceive, Send CMD_PONG [], CommReceive, CommReceive]\<rparr>)"
  have run: "cmd_receive_unhandled 3 ?env (server_with {} 0 0 False 0) = Some ?res"
    by (simp add: numeral_3_eq_3 cmd_receive_one_rec_def connect_def script_env_def
          server_with_def cmd_process_rec_def cmd_defs cmd_ping_def prim_defs Let_def)
  note inst = cmd_receive_unhandled_first_unhandled
    [where env = ?env and s = "server_with {} 0 0 False 0" and res = ?res
       and ?p1.0 = "[0x4F, 0x6E, 0x58, 0]" and ?p2.0 = "[7, 0, 9, 9]"
       and ?p3.0 = "[1, 5, 0, 0, 0]" and now = 5 and st = "{}" and sol = 0 and tck = 0
       and dbg = False and sk = 0]
  from inst run have a: "receive_until ?env (server_with {} 0 0 False 0) ?res" by blast
  from inst obtain s1 where
    "cmd_receive_unhandled 3
          (script_env [(handled, CMD_REGISTER_CALL, [0x4F, 0x6E, 0x58, 0]),
                       (handled, CMD_INVOKE_NATIVE, [7, 0, 9, 9]),
                       (handled, CMD_RESPONSE, [1, 5, 0, 0, 0])] 5)
          (server_with {} 0 0 False 0)
       = Some (True, (if [1, 5, 0, 0, 0] = ([] :: bytes) then None else Some [1, 5, 0, 0, 0]),
               length [1, 5, 0, 0, 0 :: u8], s1)"
    and "allocated (trace s1) = (if [1, 5, 0, 0, 0] = ([] :: bytes) then [] else [[1, 5, 0, 0, 0]])"
    by blast
  with a show ?thesis by simp
qed

text \<open>
  The claim as stated fails: after the same registration and native call, a response with
  an empty payload ends the loop with true, and no reply payload comes to the caller.
\<close>

theorem cmd_receive_unhandled_first_unhandled_counterexample:
  "map_option (\<lambda>(ok, r, l, s1). (ok, r, l, allocated (trace s1)))
     (cmd_receive_unhandled 3
        (script_env [(handled, CMD_REGISTER_CALL, [0x4F, 0x6E, 0x58, 0]),
                     (handled, CMD_INVOKE_NATIVE, [7, 0, 9, 9]),
                     (handled, CMD_RESPONSE, [])] 5)
        (server_with {} 0 0 False 0)) =
   Some (True, None, 0, [])"
  by (simp add: numeral_3_eq_3 cmd_receive_one_rec_def connect_def script_env_def
        server_with_def cmd_process_rec_def cmd_defs cmd_register_call_def
        cmd_invoke_native_def prim_defs Let_def)

subsection \<open>The status flags\<close>























lemma is_debugging_status_snd: "status_m (snd (is_debugging env is_tick s)) = status_m s"
  by (simp add: is_debugging_def Let_def prim_sel)

lemma is_debugging_status:
  "is_debugging env is_tick s = (b, s1) \<Longrightarrow> status_m s1 = status_m s"
  using is_debugging_status_snd [of env is_tick s] by simp

lemma fill_call_buffer_status:
  "fill_call_buffer env amx name params s = (r, s1) \<Longrightarrow> status_m s1 = status_m s"
  by (auto simp add: fill_call_buffer_def prim_sel split: option.splits)




lemma public_call_send_unfold:
  assumes "s1 = (if name = ''OnGameModeInit'' then STATUS_SET {status_server_received_init} s
                 else if \<not> name = ''OnGameModeInit'' \<and> name = ''OnGameModeExit''
                 then STATUS_UNSET {status_server_received_init} s else s)"
    and "s2 = emit (SetOn False) s1"
    and "s3 = (if name = ''OnGameModeInit''
               then STATUS_SET {status_client_received_init} s2 else s2)"
  shows "public_call_send env amx name params s =
     (if \<not> is_client_connected env s1 \<or> \<not> STATUS_ISSET {status_client_started} s1
         \<or> STATUS_ISSET {status_client_reconnecting} s1
         \<or> STATUS_ISSET {status_client_disconnecting} s1
      then (False, s1)
      else if \<not> name = ''OnGameModeInit'' \<and> \<not> STATUS_ISSET {status_client_received_init} s2
      then (False, s2)
      else (case is_debugging env False s3 of
              (True, s4) \<Rightarrow> (False, s4)
            | (False, s4) \<Rightarrow>
                (case fill_call_buffer env amx name params s4 of
                   (None, s5) \<Rightarrow> (False, s5)
                 | (Some len, s5) \<Rightarrow>
                     (True, communication_send CMD_PUBLIC_CALL len
                              (buf_m (emit MutexLock s5)) (emit MutexLock s5)))))"
  unfolding public_call_send_def Let_def assms by (rule refl)



subsection \<open>The invariant of the status flags\<close>




subsection \<open>Forwarding a public call\<close>

lemma public_call_not_forwarded:
  assumes "\<not> (is_client_connected env s \<and> status_client_started \<in> status_m s
            \<and> status_client_reconnecting \<notin> status_m s
            \<and> status_client_disconnecting \<notin> status_m s
            \<and> (name = ''OnGameModeInit'' \<or> status_client_received_init \<in> status_m s))"
  shows "\<exists>s1. public_call_send env amx name params s = (False, s1)
           \<and> (trace s1 = trace s \<or> trace s1 = trace s @ [SetOn False])"
proof -
  define s1 where "s1 = (if name = ''OnGameModeInit''
                 then STATUS_SET {status_server_received_init} s
                 else if \<not> name = ''OnGameModeInit'' \<and> name = ''OnGameModeExit''
                 then STATUS_UNSET {status_server_received_init} s else s)"
  define s2 where "s2 = emit (SetOn False) s1"
  define s3 where "s3 = (if name = ''OnGameModeInit''
               then STATUS_SET {status_client_received_init} s2 else s2)"
  note eq = public_call_send_unfold [OF s1_def s2_def s3_def, of env amx params]
  have tr: "trace s1 = trace s" "trace s2 = trace s @ [SetOn False]"
    by (simp_all add: s1_def s2_def prim_sel)
  have conn: "is_client_connected env s1 = is_client_connected env s"
    by (auto simp add: is_client_connected_def STATUS_ISSET_def s1_def prim_sel)
  have st: "STATUS_ISSET {status_client_started} s1 = (status_client_started \<in> status_m s)"
    "STATUS_ISSET {status_client_reconnecting} s1 = (status_client_reconnecting \<in> status_m s)"
    "STATUS_ISSET {status_client_disconnecting} s1 = (status_client_disconnecting \<in> status_m s)"
    "STATUS_ISSET {status_client_received_init} s2 = (status_client_received_init \<in> status_m s)"
    by (auto simp add: STATUS_ISSET_def s1_def s2_def prim_sel)
  from assms have "public_call_send env amx name params s = (False, s1)
                 \<or> public_call_send env amx name params s = (False, s2)"
    unfolding eq conn st by auto
  with tr show ?thesis by auto
qed

text \<open>
  C8. When the client is not connected, or has not started, or is reconnecting or
  disconnecting, or has not received its init and the callback is not \<open>OnGameModeInit\<close>,
  \<open>public_call\<close> returns, with the return slot as it was, having sent no command and not
  taken the lock: at most the intermission was switched off. So a call is forwarded only
  under these five conditions. \<open>OnGameModeInit\<close> on a client that has not started only
  records that the host has received its init.
\<close>

theorem public_call_gate:
  "(\<not> (is_client_connected env s \<and> status_client_started \<in> status_m s
         \<and> status_client_reconnecting \<notin> status_m s
         \<and> status_client_disconnecting \<notin> status_m s
         \<and> (name = ''OnGameModeInit'' \<or> status_client_received_init \<in> status_m s))
     \<longrightarrow> (\<exists>s1. public_call n env amx name params retval s = Some (Inr (retval, s1))
              \<and> (trace s1 = trace s \<or> trace s1 = trace s @ [SetOn False])
              \<and> sent (trace s1) = sent (trace s)
              \<and> MutexLock \<notin> set (drop (length (trace s)) (trace s1))))
   \<and> (fst (public_call_send env amx name params s)
     \<longrightarrow> is_client_connected env s \<and> status_client_started \<in> status_m s
         \<and> status_client_reconnecting \<notin> status_m s
         \<and> status_client_disconnecting \<notin> status_m s
         \<and> (name = ''OnGameModeInit'' \<or> status_client_received_init \<in> status_m s))
   \<and> (status_client_started \<notin> status_m s
     \<longrightarrow> public_call n env amx ''OnGameModeInit'' params retval s =
           Some (Inr (retval, s\<lparr>status_m := status_m s \<union> {status_server_received_init}\<rparr>)))"
proof -
  have one: "\<exists>s1. public_call n env amx name params retval s = Some (Inr (retval, s1))
              \<and> (trace s1 = trace s \<or> trace s1 = trace s @ [SetOn False])
              \<and> sent (trace s1) = sent (trace s)
              \<and> MutexLock \<notin> set (drop (length (trace s)) (trace s1))"
    if gate: "\<not> (is_client_connected env s \<and> status_client_started \<in> status_m s
         \<and> status_client_reconnecting \<notin> status_m s
         \<and> status_client_disconnecting \<notin> status_m s
         \<and> (name = ''OnGameModeInit'' \<or> status_client_received_init \<in> status_m s))"
  proof -
    from public_call_not_forwarded [OF gate] obtain s1 where
      snd: "public_call_send env amx name params s = (False, s1)"
      and tr: "trace s1 = trace s \<or> trace s1 = trace s @ [SetOn False]"
      by blast
    from snd have "public_call n env amx name params retval s = Some (Inr (retval, s1))"
      by (simp add: public_call_def)
    moreover from tr have "sent (trace s1) = sent (trace s)"
      by (auto simp add: sent_append)
    moreover from tr have "MutexLock \<notin> set (drop (length (trace s)) (trace s1))"
      by auto
    ultimately show ?thesis using tr by blast
  qed
  have two: "is_client_connected env s \<and> status_client_started \<in> status_m s
         \<and> status_client_reconnecting \<notin> status_m s
         \<and> status_client_disconnecting \<notin> status_m s
         \<and> (name = ''OnGameModeInit'' \<or> status_client_received_init \<in> status_m s)"
    if fwd: "fst (public_call_send env amx name params s)"
  proof (rule ccontr)
    assume "\<not> ?thesis"
    from public_call_not_forwarded [OF this, of amx params] fwd show False by auto
  qed
  have three: "public_call n env amx ''OnGameModeInit'' params retval s =
           Some (Inr (retval, s\<lparr>status_m := status_m s \<union> {status_server_received_init}\<rparr>))"
    if ns: "status_client_started \<notin> status_m s"
  proof -
    from ns have "public_call_send env amx ''OnGameModeInit'' params s =
             (False, s\<lparr>status_m := status_m s \<union> {status_server_received_init}\<rparr>)"
      by (simp add: public_call_send_def Let_def STATUS_ISSET_def STATUS_SET_def)
    then show ?thesis by (simp add: public_call_def)
  qed
  from one two three show ?thesis by blast
qed

text \<open>
  On an instance with no flag set, \<open>OnGameModeInit\<close> returns with an empty trace. On a
  client that is connected, started and has received its init, \<open>OnPlayerConnect\<close> is
  forwarded: the lock is taken and the command sent.
\<close>

theorem public_call_gate_witness:
  "status_client_started \<notin> status_m (server_with {} 0 0 False 0)
   \<and> public_call 0 (script_env [] 0) 0 ''OnGameModeInit'' [] (Some 7) (server_with {} 0 0 False 0) =
       Some (Inr (Some 7, server_with {status_server_received_init} 0 0 False 0))
   \<and> trace (server_with {status_server_received_init} 0 0 False 0) = []
   \<and> fst (public_call_send (script_env [] 0) 0 ''OnPlayerConnect'' [1]
        (server_with {status_client_connected, status_client_started,
                      status_client_received_init} 0 0 False 0))
   \<and> trace (snd (public_call_send (script_env [] 0) 0 ''OnPlayerConnect'' [1]
        (server_with {status_client_connected, status_client_started,
                      status_client_received_init} 0 0 False 0))) =
       [SetOn False, MutexLock,
        Send CMD_PUBLIC_CALL (map (of_nat \<circ> of_char) ''OnPlayerConnect'')]"
proof -
  have h: "status_client_started \<notin> status_m (server_with {} 0 0 False 0)"
    by (simp add: server_with_def)
  from public_call_gate [of "script_env [] 0" "server_with {} 0 0 False 0" _ 0 0 "[]" "Some 7"] h
  have a: "public_call 0 (script_env [] 0) 0 ''OnGameModeInit'' [] (Some 7)
             (server_with {} 0 0 False 0) =
           Some (Inr (Some 7, server_with {status_server_received_init} 0 0 False 0))"
    by (simp add: server_with_def)
  have b: "public_call_send (script_env [] 0) 0 ''OnPlayerConnect'' [1]
        (server_with {status_client_connected, status_client_started,
                      status_client_received_init} 0 0 False 0) =
      (True, (server_with {status_client_connected, status_client_started,
                      status_client_received_init} 0 0 False 0)
         \<lparr>buf_m := map (of_nat \<circ> of_char) ''OnPlayerConnect'',
          trace := [SetOn False, MutexLock,
             Send CMD_PUBLIC_CALL (map (of_nat \<circ> of_char) ''OnPlayerConnect'')]\<rparr>)"
    by (simp add: public_call_send_def is_client_connected_def is_debugging_def
          fill_call_buffer_def script_env_def server_with_def prim_defs Let_def
          DEBUG_PAUSE_TIMEOUT_def)
  from h a b show ?thesis by (simp add: server_with_def)
qed

subsection \<open>Reply buffers\<close>

lemma live_connect: "live (trace (snd (connect env s))) = live (trace s)"
  by (simp add: connect_def cmd_send_announce_def Let_def prim_sel trace_obs)

lemma live_disconnect: "live (trace (disconnect env context expected s)) = live (trace s)"
  by (simp add: disconnect_def Let_def prim_sel trace_obs)

lemma live_handlers:
  "live (trace (cmd_ping env buf buflen s)) = live (trace s)"
  "live (trace (cmd_print env buf buflen s)) = live (trace s)"
  "live (trace (cmd_alive env buf buflen s)) = live (trace s)"
  "live (trace (cmd_register_call env buf buflen s)) = live (trace s)"
  "live (trace (cmd_find_native env buf buflen s)) = live (trace s)"
  "live (trace (cmd_invoke_native env buf buflen s)) = live (trace s)"
  "live (trace (cmd_disconnect env buf buflen s)) = live (trace s)"
  "live (trace (cmd_reconnect env buf buflen s)) = live (trace s)"
  by (simp_all add: cmd_ping_def cmd_print_def cmd_alive_def cmd_register_call_def
        cmd_find_native_def cmd_invoke_native_def cmd_disconnect_def cmd_reconnect_def
        live_disconnect Let_def prim_sel trace_obs)

lemma live_is_debugging: "live (trace (snd (is_debugging env is_tick s))) = live (trace s)"
  by (simp add: is_debugging_def Let_def prim_sel trace_obs)

lemma live_fill_call_buffer:
  "live (trace (snd (fill_call_buffer env amx name params s))) = live (trace s)"
  by (simp add: fill_call_buffer_def prim_sel split: option.splits)

lemma wf_fake_gmx:
  assumes recv: "\<forall>x res. recv x = Some res \<longrightarrow> reply_wf x res"
    and run: "cmd_start_fake_gmx recv env s = Some s1"
  shows "live (trace s1) = live (trace s)"
proof (cases "callbacks_fill_call_buffer env (trace s) 0 ''OnGameModeInit'' [0] (LEN_NETBUF env)")
  case None
  with run show ?thesis
    by (auto simp add: cmd_start_fake_gmx_def fill_call_buffer_def Let_def prim_sel)
next
  case (Some data)
  let ?s4 = "write_buf data (STATUS_SET {status_client_received_init} s)"
  let ?s5 = "communication_send CMD_PUBLIC_CALL (length data) (buf_m ?s4) ?s4"
  have a: "live (trace ?s5) = live (trace s)"
    by (simp add: prim_sel trace_obs)
  show ?thesis
  proof (cases "recv ?s5")
    case None
    with run Some show ?thesis
      by (simp add: cmd_start_fake_gmx_def fill_call_buffer_def Let_def prim_sel)
  next
    case got: (Some res)
    obtain ok r l x1 where res: "res = (ok, r, l, x1)" by (cases res)
    from recv got res have b: "reply_wf ?s5 (ok, r, l, x1)" by blast
    show ?thesis
    proof (cases r)
      case None
      with b have "live (trace x1) = live (trace ?s5)" by (simp add: reply_wf_def)
      moreover from run Some got res None
      have "s1 = log_error ''Received no response to callback OnGameModeInit.'' x1"
        by (simp add: cmd_start_fake_gmx_def fill_call_buffer_def Let_def prim_sel)
      ultimately show ?thesis using a by (simp add: prim_sel trace_obs)
    next
      case (Some buffer)
      with b have c: "ok" "l = length buffer" "buffer \<noteq> []"
        "live (trace x1) = live (trace ?s5) + 1"
        by (simp_all add: reply_wf_def)
      with run \<open>callbacks_fill_call_buffer env (trace s) 0 ''OnGameModeInit'' [0]
                  (LEN_NETBUF env) = Some data\<close> got res Some
      have "s1 = emit (Delete buffer) x1"
        by (simp add: cmd_start_fake_gmx_def fill_call_buffer_def Let_def prim_sel)
      with c a show ?thesis by (simp add: prim_sel trace_obs)
    qed
  qed
qed

lemma wf_start_rec:
  assumes recv: "\<forall>x res. recv x = Some res \<longrightarrow> reply_wf x res"
    and run: "cmd_start_rec recv env buf buflen s = Some s1"
  shows "live (trace s1) = live (trace s)"
proof -
  let ?s0 = "log_debug ''Using 'fake gmx' start method''
               (STATUS_SET {status_client_started} (log_info ''The gamemode has started.'' s))"
  have a: "live (trace ?s0) = live (trace s)"
    by (simp add: prim_sel trace_obs)
  from run have "live (trace s1) = live (trace s) \<or> cmd_start_fake_gmx recv env ?s0 = Some s1"
    by (auto simp add: cmd_start_rec_def Let_def prim_sel trace_obs split: if_splits)
  moreover have "cmd_start_fake_gmx recv env ?s0 = Some s1
                   \<Longrightarrow> live (trace s1) = live (trace ?s0)"
    by (rule wf_fake_gmx [OF recv])
  ultimately show ?thesis using a by auto
qed

lemma wf_process_rec:
  assumes recv: "\<forall>x res. recv x = Some res \<longrightarrow> reply_wf x res"
    and bound: "buflen \<le> length buf"
    and run: "cmd_process_rec recv env cmd buf buflen None resplen s = Some (stat, r, l, s1)"
  shows "reply_wf s (stat = unhandled, r, l, s1)"
proof (cases "cmd = CMD_START")
  case True
  with run have "cmd_start_rec recv env buf buflen s = Some s1" and "r = None"
    by (auto simp add: cmd_process_rec_def cmd_defs split: option.splits)
  with wf_start_rec [OF recv] show ?thesis by (simp add: reply_wf_def)
next
  case False
  with run bound show ?thesis
    by (auto simp add: cmd_process_rec_def live_handlers reply_wf_def prim_sel trace_obs
          split: if_splits)
qed

lemma wf_receive_one_rec:
  assumes recv: "\<forall>x res. recv x = Some res \<longrightarrow> reply_wf x res"
    and run: "cmd_receive_one_rec recv env None len s = Some (stat, r, l, s1)"
  shows "reply_wf s (stat = unhandled, r, l, s1)"
proof -
  obtain c x where conn: "connect env s = (c, x)" by (cases "connect env s")
  have a: "live (trace x) = live (trace s)" using live_connect [of env s] conn by simp
  obtain st command payload where rx: "comm_receive env (trace x) = (st, command, payload)"
    by (cases "comm_receive env (trace x)")
  let ?s2 = "write_buf payload (emit CommReceive x)"
  have b: "live (trace (store_time env ?s2)) = live (trace s)" "live (trace ?s2) = live (trace s)"
    using a by (simp_all add: prim_sel trace_obs)
  have len: "length payload \<le> length (buf_m ?s2)"
    by (simp add: prim_sel)
  show ?thesis
  proof (cases "c \<and> st \<noteq> conn_dead \<and> st \<noteq> no_cmd")
    case True
    with run conn rx have
      "cmd_process_rec recv env command (buf_m ?s2) (length payload) None len
         (store_time env ?s2) = Some (stat, r, l, s1)"
      by (simp add: cmd_receive_one_rec_def Let_def)
    from wf_process_rec [OF recv len this] b show ?thesis
      by (simp add: reply_wf_def split: option.splits)
  next
    case False
    with run conn rx have "(s1 = x \<or> s1 = ?s2) \<and> r = None"
      by (cases c) (auto simp add: cmd_receive_one_rec_def Let_def split: if_splits)
    with a b show ?thesis
      by (auto simp add: reply_wf_def)
  qed
qed

lemma wf_receive_unhandled:
  "\<forall>s res. cmd_receive_unhandled n env s = Some res \<longrightarrow> reply_wf s res"
proof (induction n)
  case 0
  show ?case by simp
next
  case (Suc n)
  show ?case
  proof (intro allI impI)
    fix s res
    assume run: "cmd_receive_unhandled (Suc n) env s = Some res"
    then obtain one where
      one: "cmd_receive_one_rec (cmd_receive_unhandled n env) env None 0 s = Some one"
      by (auto split: option.splits)
    obtain stat r l x where o: "one = (stat, r, l, x)" by (cases one)
    from wf_receive_one_rec [OF Suc.IH] one o
    have a: "reply_wf s (stat = unhandled, r, l, x)" by blast
    show "reply_wf s res"
    proof (cases "stat = handled \<or> stat = no_cmd")
      case True
      with a have "r = None" "live (trace x) = live (trace s)"
        by (auto simp add: reply_wf_def split: option.splits)
      moreover from run one o True have "cmd_receive_unhandled n env x = Some res" by simp
      with Suc.IH have "reply_wf x res" by blast
      ultimately show ?thesis
        by (cases res) (auto simp add: reply_wf_def split: option.splits)
    next
      case False
      with run one o have "res = (stat = unhandled, r, l, x)" by simp
      with a show ?thesis by simp
    qed
  qed
qed

lemma public_call_reply_wf:
  assumes wf: "reply_wf s (ok, response, len, s1)"
  shows "\<exists>rv s2. public_call_reply name retval ok response len s1 = Inr (rv, s2)
          \<and> rv = (case response of
                    None \<Rightarrow> retval
                  | Some r \<Rightarrow>
                      if 5 \<le> length r \<and> r ! 0 \<noteq> 0 \<and> retval \<noteq> None
                      then Some (rd32 (take 4 (drop 1 r))) else retval)
          \<and> released (trace s2) =
              released (trace s1) @ (case response of None \<Rightarrow> [] | Some r \<Rightarrow> [r])
          \<and> live (trace s1) = live (trace s) + (case response of None \<Rightarrow> 0 | Some r \<Rightarrow> 1)
          \<and> live (trace s2) = live (trace s)"
proof (cases response)
  case None
  with wf show ?thesis
    by (simp add: public_call_reply_def reply_wf_def prim_sel trace_obs released_append)
next
  case (Some r)
  with wf have c: "ok" "len = length r" "r \<noteq> []" "live (trace s1) = live (trace s) + 1"
    by (simp_all add: reply_wf_def)
  show ?thesis
  proof (cases "5 \<le> length r")
    case True
    then have "load_u8 r 0 = Inr (r ! 0)" "load_u32 r 1 = Inr (rd32 (take 4 (drop 1 r)))"
      by (auto simp add: load_u8_def load_u32_def)
    with Some c True show ?thesis
      by (simp add: public_call_reply_def Let_def prim_sel trace_obs released_append)
  next
    case False
    with Some c show ?thesis
      by (simp add: public_call_reply_def Let_def prim_sel trace_obs released_append)
  qed
qed

lemma live_public_call_send:
  "live (trace (snd (public_call_send env amx name params s))) = live (trace s)"
proof -
  define s1 where "s1 = (if name = ''OnGameModeInit''
                 then STATUS_SET {status_server_received_init} s
                 else if \<not> name = ''OnGameModeInit'' \<and> name = ''OnGameModeExit''
                 then STATUS_UNSET {status_server_received_init} s else s)"
  define s2 where "s2 = emit (SetOn False) s1"
  define s3 where "s3 = (if name = ''OnGameModeInit''
               then STATUS_SET {status_client_received_init} s2 else s2)"
  note eq = public_call_send_unfold [OF s1_def s2_def s3_def, of env amx params]
  have a: "live (trace s1) = live (trace s)" "live (trace s2) = live (trace s)"
    "live (trace s3) = live (trace s)"
    by (simp_all add: s1_def s2_def s3_def prim_sel trace_obs)
  obtain d s4 where dbg: "is_debugging env False s3 = (d, s4)"
    by (cases "is_debugging env False s3")
  with live_is_debugging [of env False s3] a have e: "live (trace s4) = live (trace s)" by simp
  obtain r s5 where fill: "fill_call_buffer env amx name params s4 = (r, s5)"
    by (cases "fill_call_buffer env amx name params s4")
  with live_fill_call_buffer [of env amx name params s4] e
  have f: "live (trace s5) = live (trace s)" by simp
  have g: "live (trace (communication_send CMD_PUBLIC_CALL k (buf_m (emit MutexLock s5))
                   (emit MutexLock s5))) = live (trace s)" for k
    using f by (simp add: prim_sel trace_obs)
  show ?thesis
    unfolding eq using a e f g dbg fill
    by (cases d; cases r) simp_all
qed

subsection \<open>The reply to a public call\<close>

text \<open>
  C10. Whatever the receive loop returns to \<open>public_call\<close>, the handling of the reply
  reads inside the reply buffer only. The return slot changes only when the caller passed
  one, a reply buffer was received, it has at least five bytes and its first byte is not
  zero: then the slot holds bytes 1 to 4. A reply buffer that was received is released
  exactly once, and no other buffer is: when \<open>public_call\<close> returns, every buffer allocated
  since the call has been released.
\<close>

theorem public_call_reply_safe:
  "(cmd_receive_unhandled n env s = Some (ok, response, len, s1) \<longrightarrow>
      (\<exists>rv s2. public_call_reply name retval ok response len s1 = Inr (rv, s2)
          \<and> rv = (case response of
                    None \<Rightarrow> retval
                  | Some r \<Rightarrow>
                      if 5 \<le> length r \<and> r ! 0 \<noteq> 0 \<and> retval \<noteq> None
                      then Some (rd32 (take 4 (drop 1 r))) else retval)
          \<and> released (trace s2) =
              released (trace s1) @ (case response of None \<Rightarrow> [] | Some r \<Rightarrow> [r])
          \<and> live (trace s1) = live (trace s) + (case response of None \<Rightarrow> 0 | Some r \<Rightarrow> 1)
          \<and> live (trace s2) = live (trace s)))
   \<and> public_call n env amx name params retval s \<noteq> Some (Inl f)
   \<and> (public_call n env amx name params retval s = Some (Inr (rv1, s3))
        \<longrightarrow> live (trace s3) = live (trace s))"
proof -
  have one: "\<exists>rv s2. public_call_reply name retval ok response len s1 = Inr (rv, s2)
          \<and> rv = (case response of
                    None \<Rightarrow> retval
                  | Some r \<Rightarrow>
                      if 5 \<le> length r \<and> r ! 0 \<noteq> 0 \<and> retval \<noteq> None
                      then Some (rd32 (take 4 (drop 1 r))) else retval)
          \<and> released (trace s2) =
              released (trace s1) @ (case response of None \<Rightarrow> [] | Some r \<Rightarrow> [r])
          \<and> live (trace s1) = live (trace s) + (case response of None \<Rightarrow> 0 | Some r \<Rightarrow> 1)
          \<and> live (trace s2) = live (trace s)"
    if "cmd_receive_unhandled n env s = Some (ok, response, len, s1)"
  proof -
    from wf_receive_unhandled that have "reply_wf s (ok, response, len, s1)" by blast
    then show ?thesis by (rule public_call_reply_wf)
  qed
  obtain fwd x where snd: "public_call_send env amx name params s = (fwd, x)"
    by (cases "public_call_send env amx name params s")
  with live_public_call_send [of env amx name params s]
  have lx: "live (trace x) = live (trace s)" by simp
  have two: "public_call n env amx name params retval s \<noteq> Some (Inl f)
     \<and> (public_call n env amx name params retval s = Some (Inr (rv1, s3))
          \<longrightarrow> live (trace s3) = live (trace s))"
  proof (cases fwd)
    case False
    with snd lx show ?thesis by (auto simp add: public_call_def)
  next
    case True
    show ?thesis
    proof (cases "cmd_receive_unhandled n env x")
      case None
      with snd True show ?thesis by (simp add: public_call_def)
    next
      case (Some res)
      obtain ok1 r1 l1 y where res: "res = (ok1, r1, l1, y)" by (cases res)
      from wf_receive_unhandled Some res have "reply_wf x (ok1, r1, l1, y)" by blast
      from public_call_reply_wf [OF this, of name retval] obtain rv s2 where
        "public_call_reply name retval ok1 r1 l1 y = Inr (rv, s2)"
        and "live (trace s2) = live (trace x)"
        by blast
      with snd True Some res lx show ?thesis by (auto simp add: public_call_def)
    qed
  qed
  from one two show ?thesis by blast
qed

text \<open>
  The client answers \<open>OnPlayerConnect\<close> with the reply \<open>01 2A 00 00 00\<close>: the slot holds
  42 and the buffer is released.
\<close>

theorem public_call_reply_safe_witness:
  "public_call 1 (script_env [(handled, CMD_RESPONSE, [1, 0x2A, 0, 0, 0])] 0) 0
     ''OnPlayerConnect'' [1] (Some 0)
     (server_with {status_client_connected, status_client_started,
                   status_client_received_init} 0 0 False 0) =
   Some (Inr (Some 42,
     (server_with {status_client_connected, status_client_started,
                   status_client_received_init} 0 0 False 0)
       \<lparr>buf_m := [1, 0x2A, 0, 0, 0] @ drop 5 (map (of_nat \<circ> of_char) ''OnPlayerConnect''),
        trace := [SetOn False, MutexLock,
           Send CMD_PUBLIC_CALL (map (of_nat \<circ> of_char) ''OnPlayerConnect''),
           CommReceive, New [1, 0x2A, 0, 0, 0], MutexUnlock, Delete [1, 0x2A, 0, 0, 0]]\<rparr>))"
proof -
  let ?env = "script_env [(handled, CMD_RESPONSE, [1, 0x2A, 0, 0, 0])] 0"
  let ?s = "server_with {status_client_connected, status_client_started,
                   status_client_received_init} 0 0 False 0"
  let ?s7 = "?s\<lparr>buf_m := map (of_nat \<circ> of_char) ''OnPlayerConnect'',
          trace := [SetOn False, MutexLock,
             Send CMD_PUBLIC_CALL (map (of_nat \<circ> of_char) ''OnPlayerConnect'')]\<rparr>"
  let ?s8 = "?s\<lparr>buf_m := [1, 0x2A, 0, 0, 0] @ drop 5 (map (of_nat \<circ> of_char) ''OnPlayerConnect''),
          trace := [SetOn False, MutexLock,
             Send CMD_PUBLIC_CALL (map (of_nat \<circ> of_char) ''OnPlayerConnect''),
             CommReceive, New [1, 0x2A, 0, 0, 0]]\<rparr>"
  have snd: "public_call_send ?env 0 ''OnPlayerConnect'' [1] ?s = (True, ?s7)"
    by (simp add: public_call_send_def is_client_connected_def is_debugging_def
          fill_call_buffer_def script_env_def server_with_def prim_defs Let_def
          DEBUG_PAUSE_TIMEOUT_def)
  have recv: "cmd_receive_unhandled 1 ?env ?s7 = Some (True, Some [1, 0x2A, 0, 0, 0], 5, ?s8)"
    by (simp add: cmd_receive_one_rec_def connect_def script_env_def
          server_with_def cmd_process_rec_def cmd_defs prim_defs Let_def)
  from public_call_reply_safe [of 1 ?env ?s7 True "Some [1, 0x2A, 0, 0, 0]" 5 ?s8
         "''OnPlayerConnect''" "Some 0"] recv
  obtain rv s2 where
    rep: "public_call_reply ''OnPlayerConnect'' (Some 0) True (Some [1, 0x2A, 0, 0, 0]) 5 ?s8
            = Inr (rv, s2)"
    and rv: "rv = (case Some [1, 0x2A, 0, 0, 0 :: u8] of
                     None \<Rightarrow> Some 0
                   | Some r \<Rightarrow>
                       if 5 \<le> length r \<and> r ! 0 \<noteq> 0 \<and> Some (0 :: cell) \<noteq> None
                       then Some (rd32 (take 4 (drop 1 r))) else Some 0)"
    by blast
  from rv have "rv = Some 42" by (simp add: rd32_def)
  moreover from rep have "s2 = emit (Delete [1, 0x2A, 0, 0, 0]) (emit MutexUnlock ?s8)"
    by (simp add: public_call_reply_def Let_def load_u8_def load_u32_def)
  ultimately show ?thesis
    using snd recv rep
    by (simp add: public_call_def emit_def server_with_def)
qed

subsection \<open>Dispatching a command\<close>

lemma cmd_start_returns:
  assumes "\<not> (buflen \<noteq> 0 \<and> byte_at buf 0 = 2 \<and> status_server_received_init \<in> status_m s)"
  shows "cmd_start n env buf buflen s \<noteq> None"
  using assms
  by (auto simp add: cmd_start_def cmd_start_rec_def Let_def STATUS_ISSET_iff prim_sel)

text \<open>
  C2, as the code has it. Every command of the table but \<open>start\<close> is handled, for any
  fuel, and leaves the caller's buffer pointer and length as they were; \<open>start\<close> does so
  when its handler returns, which it does at once unless it is the fake gmx mode on a host
  that has received its init (then it waits for the client's answer). The response opcode
  and every opcode outside the table are unhandled: with a payload that is not empty the
  caller gets a newly allocated copy of the payload and its length, with an empty payload
  nothing is allocated and the caller's pointer and length stay as they were. A command
  that the transport delivers with such an opcode and a payload that is not empty comes
  out of \<open>cmd_receive_one\<close> as unhandled with exactly that payload.
\<close>

theorem cmd_process_status:
  "(cmd \<in> {CMD_PING, CMD_PRINT, CMD_RECONNECT, CMD_REGISTER_CALL, CMD_FIND_NATIVE,
            CMD_INVOKE_NATIVE, CMD_DISCONNECT, CMD_ALIVE}
      \<longrightarrow> (\<exists>s1. cmd_process n env cmd buf buflen resp resplen s
                   = Some (handled, resp, resplen, s1)))
   \<and> cmd_process n env CMD_START buf buflen resp resplen s
       = map_option (\<lambda>s1. (handled, resp, resplen, s1)) (cmd_start n env buf buflen s)
   \<and> (\<not> (buflen \<noteq> 0 \<and> byte_at buf 0 = 2 \<and> status_server_received_init \<in> status_m s)
      \<longrightarrow> cmd_start n env buf buflen s \<noteq> None)
   \<and> (cmd \<notin> {CMD_PING, CMD_PRINT, CMD_RECONNECT, CMD_REGISTER_CALL, CMD_FIND_NATIVE,
            CMD_INVOKE_NATIVE, CMD_START, CMD_DISCONNECT, CMD_ALIVE}
      \<longrightarrow> cmd_process n env cmd buf buflen resp resplen s
           = (if buflen > 0
              then Some (unhandled, Some (take buflen buf), buflen,
                         emit (New (take buflen buf)) s)
              else Some (unhandled, resp, resplen, s)))
   \<and> (cmd \<notin> {CMD_PING, CMD_PRINT, CMD_RECONNECT, CMD_REGISTER_CALL, CMD_FIND_NATIVE,
            CMD_INVOKE_NATIVE, CMD_START, CMD_DISCONNECT, CMD_ALIVE}
        \<and> comm_is_connected env (trace s)
        \<and> comm_receive env (trace s) = (st, cmd, payload)
        \<and> st \<noteq> conn_dead \<and> st \<noteq> no_cmd \<and> payload \<noteq> []
      \<longrightarrow> (\<exists>s1. cmd_receive_one n env resp resplen s
                   = Some (unhandled, Some payload, length payload, s1)
               \<and> allocated (trace s1) = allocated (trace s) @ [payload]))"
proof -
  have one: "\<exists>s1. cmd_process n env cmd buf buflen resp resplen s
                   = Some (handled, resp, resplen, s1)"
    if "cmd \<in> {CMD_PING, CMD_PRINT, CMD_RECONNECT, CMD_REGISTER_CALL, CMD_FIND_NATIVE,
            CMD_INVOKE_NATIVE, CMD_DISCONNECT, CMD_ALIVE}"
    using that by (auto simp add: cmd_process_def cmd_process_rec_def cmd_defs)
  have two: "cmd_process n env CMD_START buf buflen resp resplen s
       = map_option (\<lambda>s1. (handled, resp, resplen, s1)) (cmd_start n env buf buflen s)"
    by (simp add: cmd_process_def cmd_process_rec_def cmd_start_def cmd_defs
          split: option.splits)
  have three: "cmd_start n env buf buflen s \<noteq> None"
    if "\<not> (buflen \<noteq> 0 \<and> byte_at buf 0 = 2 \<and> status_server_received_init \<in> status_m s)"
    using that by (rule cmd_start_returns)
  have four: "cmd_process n env c b k resp resplen x
           = (if k > 0
              then Some (unhandled, Some (take k b), k, emit (New (take k b)) x)
              else Some (unhandled, resp, resplen, x))"
    if "c \<notin> {CMD_PING, CMD_PRINT, CMD_RECONNECT, CMD_REGISTER_CALL, CMD_FIND_NATIVE,
            CMD_INVOKE_NATIVE, CMD_START, CMD_DISCONNECT, CMD_ALIVE}" for c b k x
    using that by (simp add: cmd_process_def cmd_process_rec_def)
  have five: "\<exists>s1. cmd_receive_one n env resp resplen s
                   = Some (unhandled, Some payload, length payload, s1)
               \<and> allocated (trace s1) = allocated (trace s) @ [payload]"
    if un: "cmd \<notin> {CMD_PING, CMD_PRINT, CMD_RECONNECT, CMD_REGISTER_CALL, CMD_FIND_NATIVE,
            CMD_INVOKE_NATIVE, CMD_START, CMD_DISCONNECT, CMD_ALIVE}"
      and conn: "comm_is_connected env (trace s)"
      and rx: "comm_receive env (trace s) = (st, cmd, payload)"
      and st: "st \<noteq> conn_dead" "st \<noteq> no_cmd" and ne: "payload \<noteq> []"
  proof -
    let ?s2 = "write_buf payload (emit CommReceive s)"
    from conn have c: "connect env s = (True, s)" by (simp add: connect_def)
    have "cmd_receive_one n env resp resplen s =
            cmd_process n env cmd (buf_m ?s2) (length payload) resp resplen (store_time env ?s2)"
      using c rx st
      by (simp add: cmd_receive_one_def cmd_receive_one_rec_def cmd_process_def Let_def)
    also have "\<dots> = Some (unhandled, Some payload, length payload,
                  emit (New payload) (store_time env ?s2))"
      using ne by (simp add: four [OF un] prim_sel)
    finally show ?thesis
      by (simp add: prim_sel allocated_append)
  qed
  from one two three four five show ?thesis by blast
qed

text \<open>
  A ping is handled and the buffer pointer of the caller stays null; the start command
  with mode 1 is handled; the opcode 0x20, which is not in the table, comes back with a
  copy of its three bytes.
\<close>

theorem cmd_process_status_witness:
  "(\<exists>s1. cmd_process 0 (script_env [] 0) CMD_PING [] 0 None 0 (server_with {} 0 0 False 0)
           = Some (handled, None, 0, s1))
   \<and> cmd_start 0 (script_env [] 0) [1] 1 (server_with {} 0 0 False 0) \<noteq> None
   \<and> cmd_process 0 (script_env [] 0) 0x20 [7, 8, 9] 3 None 0 (server_with {} 0 0 False 0)
       = Some (unhandled, Some [7, 8, 9], 3, emit (New [7, 8, 9]) (server_with {} 0 0 False 0))"
proof -
  note inst = cmd_process_status [of _ 0 "script_env [] 0" _ _ None 0 "server_with {} 0 0 False 0"]
  have a: "CMD_PING \<in> {CMD_PING, CMD_PRINT, CMD_RECONNECT, CMD_REGISTER_CALL, CMD_FIND_NATIVE,
            CMD_INVOKE_NATIVE, CMD_DISCONNECT, CMD_ALIVE}" by simp
  have b: "\<not> ((1::nat) \<noteq> 0 \<and> byte_at [1] 0 = 2
             \<and> status_server_received_init \<in> status_m (server_with {} 0 0 False 0))"
    by (simp add: byte_at_def)
  have c: "(0x20 :: u8) \<notin> {CMD_PING, CMD_PRINT, CMD_RECONNECT, CMD_REGISTER_CALL,
            CMD_FIND_NATIVE, CMD_INVOKE_NATIVE, CMD_START, CMD_DISCONNECT, CMD_ALIVE}"
    by (simp add: cmd_defs)
  from inst [of CMD_PING "[]" 0] a
  have "\<exists>s1. cmd_process 0 (script_env [] 0) CMD_PING [] 0 None 0 (server_with {} 0 0 False 0)
           = Some (handled, None, 0, s1)" by blast
  moreover from inst [of CMD_PING "[1]" 1] b
  have "cmd_start 0 (script_env [] 0) [1] 1 (server_with {} 0 0 False 0) \<noteq> None" by blast
  moreover from inst [of "0x20" "[7, 8, 9]" 3] c
  have "cmd_process 0 (script_env [] 0) 0x20 [7, 8, 9] 3 None 0 (server_with {} 0 0 False 0)
       = Some (unhandled, Some [7, 8, 9], 3, emit (New [7, 8, 9]) (server_with {} 0 0 False 0))"
    by simp
  ultimately show ?thesis by blast
qed

text \<open>
  The claim as stated fails: a response with an empty payload is unhandled, and the
  caller, who passed a null pointer and the length 7, gets no buffer and no length.
\<close>

theorem cmd_process_status_counterexample:
  "cmd_process 0 (script_env [] 0) CMD_RESPONSE [] 0 None 7 (server_with {} 0 0 False 0)
     = Some (unhandled, None, 7, server_with {} 0 0 False 0)"
  by (simp add: cmd_process_def cmd_process_rec_def cmd_defs)

subsection \<open>Ticks while the debugger pauses the client\<close>

lemma tick_send_open:
  assumes "is_client_connected env s0" "status_client_started \<in> status_m s0"
    "status_client_received_init \<in> status_m s0" "status_client_reconnecting \<notin> status_m s0"
    "status_client_disconnecting \<notin> status_m s0"
  shows "tick_send env s0 =
     (case is_debugging env True (emit (SetOn False) s0) of
        (True, s3) \<Rightarrow> s3
      | (False, s3) \<Rightarrow>
          communication_send CMD_TICK 0 [] (s3\<lparr>tick_m := time_NULL env (trace s3)\<rparr>))"
  using assms by (simp add: tick_send_def STATUS_ISSET_def)

lemma tick_after_send:
  assumes "tick n env s = Some s1"
  shows "ticks_sent (trace s1) = ticks_sent (trace (tick_send env (emit MutexLock s)))
       \<and> ticks_skipped_m s1 = ticks_skipped_m (tick_send env (emit MutexLock s))
       \<and> prefix (trace (tick_send env (emit MutexLock s))) (trace s1)"
proof -
  from assms obtain x where
    x: "tick_receive n env None 0 (tick_send env (emit MutexLock s)) = Some x"
    and s1: "s1 = emit MutexUnlock x"
    by (auto simp add: tick_def split: option.splits)
  from frame_tick_receive [OF x] s1 show ?thesis
    by (simp add: receive_frame_def prim_sel trace_obs)
qed

text \<open>
  C7, as the code has it. The debug check is on and the client is connected, started,
  initialised and neither reconnecting nor disconnecting. A tick call at which the peer
  counts as paused (the last tick sent is at least 5 after the last command received)
  sends no tick, and counts it as skipped if the peer counted as paused before; except
  that, when the peer counted as paused before, more than 50 ticks are counted as skipped
  and the clock is at least 7 after the last tick sent, it sends the tick and sets the
  counter to 0. A tick call at which the peer does not count as paused sends the tick and
  sets the counter to 0. What \<open>tick\<close> receives afterwards changes neither the counter
  nor the number of ticks sent.
\<close>

theorem tick_keepalive:
  assumes "is_client_connected env (emit MutexLock s)"
    and "status_client_started \<in> status_m s" and "status_client_received_init \<in> status_m s"
    and "status_client_reconnecting \<notin> status_m s"
    and "status_client_disconnecting \<notin> status_m s"
    and "debug_check_m s"
  shows
    "(5 \<le> tick_m s - sol_m s \<and> is_debug_m s \<and> 50 < ticks_skipped_m s
        \<and> 7 \<le> time_NULL env (trace s @ [MutexLock, SetOn False]) - tick_m s
      \<longrightarrow> trace (tick_send env (emit MutexLock s)) =
            trace s @ [MutexLock, SetOn False, LogDebug ''Keepalive tick.'', Send CMD_TICK []]
          \<and> ticks_skipped_m (tick_send env (emit MutexLock s)) = 0)
     \<and> (5 \<le> tick_m s - sol_m s
        \<and> \<not> (is_debug_m s \<and> 50 < ticks_skipped_m s
               \<and> 7 \<le> time_NULL env (trace s @ [MutexLock, SetOn False]) - tick_m s)
      \<longrightarrow> sent (trace (tick_send env (emit MutexLock s))) = sent (trace s)
          \<and> ticks_skipped_m (tick_send env (emit MutexLock s)) =
              (if is_debug_m s then ticks_skipped_m s + 1 else ticks_skipped_m s))
     \<and> (tick_m s - sol_m s < 5
      \<longrightarrow> sent (trace (tick_send env (emit MutexLock s))) = sent (trace s) @ [(CMD_TICK, [])]
          \<and> ticks_skipped_m (tick_send env (emit MutexLock s)) = 0)
     \<and> (tick n env s = Some s1
      \<longrightarrow> ticks_sent (trace s1) = ticks_sent (trace (tick_send env (emit MutexLock s)))
          \<and> ticks_skipped_m s1 = ticks_skipped_m (tick_send env (emit MutexLock s))
          \<and> prefix (trace (tick_send env (emit MutexLock s))) (trace s1))"
proof -
  from assms have op: "tick_send env (emit MutexLock s) =
     (case is_debugging env True (emit (SetOn False) (emit MutexLock s)) of
        (True, s3) \<Rightarrow> s3
      | (False, s3) \<Rightarrow>
          communication_send CMD_TICK 0 [] (s3\<lparr>tick_m := time_NULL env (trace s3)\<rparr>))"
    by (intro tick_send_open) (simp_all add: prim_sel)
  have keep: "trace (tick_send env (emit MutexLock s)) =
            trace s @ [MutexLock, SetOn False, LogDebug ''Keepalive tick.'', Send CMD_TICK []]
          \<and> ticks_skipped_m (tick_send env (emit MutexLock s)) = 0"
    if "5 \<le> tick_m s - sol_m s \<and> is_debug_m s \<and> 50 < ticks_skipped_m s
        \<and> 7 \<le> time_NULL env (trace s @ [MutexLock, SetOn False]) - tick_m s"
    using that assms(6) unfolding op
    by (simp add: is_debugging_def Let_def prim_sel DEBUG_PAUSE_TIMEOUT_def
          DEBUG_PAUSE_TICK_INTERVAL_def DEBUG_PAUSE_TICK_MIN_SKIP_def)
  have skip: "sent (trace (tick_send env (emit MutexLock s))) = sent (trace s)
          \<and> ticks_skipped_m (tick_send env (emit MutexLock s)) =
              (if is_debug_m s then ticks_skipped_m s + 1 else ticks_skipped_m s)"
    if "5 \<le> tick_m s - sol_m s
        \<and> \<not> (is_debug_m s \<and> 50 < ticks_skipped_m s
               \<and> 7 \<le> time_NULL env (trace s @ [MutexLock, SetOn False]) - tick_m s)"
    using that assms(6) unfolding op
    by (auto simp add: is_debugging_def Let_def prim_sel sent_append DEBUG_PAUSE_TIMEOUT_def
          DEBUG_PAUSE_TICK_INTERVAL_def DEBUG_PAUSE_TICK_MIN_SKIP_def)
  have run: "sent (trace (tick_send env (emit MutexLock s))) = sent (trace s) @ [(CMD_TICK, [])]
          \<and> ticks_skipped_m (tick_send env (emit MutexLock s)) = 0"
    if "tick_m s - sol_m s < 5"
    using that assms(6) unfolding op
    by (auto simp add: is_debugging_def Let_def prim_sel sent_append DEBUG_PAUSE_TIMEOUT_def)
  from keep skip run tick_after_send [of n env s s1] show ?thesis by blast
qed


text \<open>
  The last command was received at -10 and the last tick sent at 0, the peer counts as
  paused, 51 ticks are counted as skipped and the clock shows 7: the tick is sent and the
  counter is 0 when \<open>tick\<close> returns.
\<close>

theorem tick_keepalive_witness:
  "trace (tick_send (script_env [] 7)
      (emit MutexLock (server_with {status_client_connected, status_client_started,
                                    status_client_received_init} (- 10) 0 True 51))) =
     [MutexLock, SetOn False, LogDebug ''Keepalive tick.'', Send CMD_TICK []]
   \<and> map_option (\<lambda>s1. (ticks_sent (trace s1), ticks_skipped_m s1))
        (tick 1 (script_env [] 7)
           (server_with {status_client_connected, status_client_started,
                         status_client_received_init} (- 10) 0 True 51)) = Some (1, 0)"
proof -
  let ?env = "script_env [] 7"
  let ?s = "server_with {status_client_connected, status_client_started,
                         status_client_received_init} (- 10) 0 True 51"
  have h: "is_client_connected ?env (emit MutexLock ?s)"
    "status_client_started \<in> status_m ?s" "status_client_received_init \<in> status_m ?s"
    "status_client_reconnecting \<notin> status_m ?s" "status_client_disconnecting \<notin> status_m ?s"
    "debug_check_m ?s"
    by (simp_all add: is_client_connected_def script_env_def server_with_def prim_defs)
  have k: "5 \<le> tick_m ?s - sol_m ?s \<and> is_debug_m ?s \<and> 50 < ticks_skipped_m ?s
        \<and> 7 \<le> time_NULL ?env (trace ?s @ [MutexLock, SetOn False]) - tick_m ?s"
    by (simp add: script_env_def server_with_def)
  have run: "tick 1 ?env ?s \<noteq> None"
    by (simp add: tick_def tick_send_def is_client_connected_def is_debugging_def
          cmd_receive_one_def cmd_receive_one_rec_def connect_def script_env_def
          server_with_def prim_defs Let_def DEBUG_PAUSE_TIMEOUT_def
          DEBUG_PAUSE_TICK_INTERVAL_def DEBUG_PAUSE_TICK_MIN_SKIP_def)
  then obtain s1 where s1: "tick 1 ?env ?s = Some s1" by blast
  note inst = tick_keepalive [OF h, of 1 s1]
  from inst k have a: "trace (tick_send ?env (emit MutexLock ?s)) =
      trace ?s @ [MutexLock, SetOn False, LogDebug ''Keepalive tick.'', Send CMD_TICK []]"
    and b: "ticks_skipped_m (tick_send ?env (emit MutexLock ?s)) = 0"
    by blast+
  from inst s1 have c: "ticks_sent (trace s1) = ticks_sent (trace (tick_send ?env (emit MutexLock ?s)))"
    and d: "ticks_skipped_m s1 = ticks_skipped_m (tick_send ?env (emit MutexLock ?s))"
    by blast+
  from a have e: "trace (tick_send ?env (emit MutexLock ?s)) =
      [MutexLock, SetOn False, LogDebug ''Keepalive tick.'', Send CMD_TICK []]"
    by (simp add: server_with_def)
  from c e have "ticks_sent (trace s1) = 1"
    by (simp add: trace_obs)
  with b d e s1 show ?thesis by simp
qed

text \<open>
  The claim as stated fails: in the same state with 50 ticks counted as skipped, the tick
  call sends nothing and counts one more.
\<close>

theorem tick_keepalive_counterexample:
  "ticks_skipped_m (server_with {status_client_connected, status_client_started,
                                 status_client_received_init} (- 10) 0 True 50) = 50
   \<and> time_NULL (script_env [] 7) [MutexLock, SetOn False]
       - tick_m (server_with {status_client_connected, status_client_started,
                              status_client_received_init} (- 10) 0 True 50) = 7
   \<and> map_option (\<lambda>s1. (sent (trace s1), ticks_skipped_m s1))
        (tick 1 (script_env [] 7)
           (server_with {status_client_connected, status_client_started,
                         status_client_received_init} (- 10) 0 True 50)) = Some ([], 51)"
  by (simp add: tick_def tick_send_def is_client_connected_def is_debugging_def
        cmd_receive_one_def cmd_receive_one_rec_def connect_def script_env_def
        server_with_def prim_defs Let_def DEBUG_PAUSE_TIMEOUT_def
        DEBUG_PAUSE_TICK_INTERVAL_def DEBUG_PAUSE_TICK_MIN_SKIP_def)

end
